theory Spec2Isabelle
  imports Main
begin

section \<open>Strings (package \<open>strings\<close>)\<close>

text \<open>
  Go strings are byte sequences; they are modelled as \<^typ>\<open>string\<close>. Only the functions of
  package \<open>strings\<close> that \<open>registry/client.go\<close> calls are modelled, with the results Go
  gives them.
\<close>

definition HasPrefix :: "string \<Rightarrow> string \<Rightarrow> bool" where
  "HasPrefix s prefix = (take (length prefix) s = prefix)"

text \<open>\<open>strings.Index\<close>: the position of the first occurrence, \<open>None\<close> for Go's \<open>-1\<close>.\<close>

fun Index :: "string \<Rightarrow> string \<Rightarrow> nat option" where
  "Index [] substr = (if substr = [] then Some 0 else None)"
| "Index (x # xs) substr =
     (if HasPrefix (x # xs) substr then Some 0 else map_option Suc (Index xs substr))"

text \<open>\<open>strings.Contains(s, substr)\<close> is \<open>Index(s, substr) >= 0\<close>.\<close>

definition Contains :: "string \<Rightarrow> string \<Rightarrow> bool" where
  "Contains s substr = (Index s substr \<noteq> None)"

text \<open>
  \<open>strings.SplitN(s, sep, 2)\<close> for a non-empty separator: the string itself when the
  separator does not occur, otherwise the part before its first occurrence and the part
  after it. (The source calls it with \<open>"/"\<close>, \<open>" "\<close> and \<open>"="\<close> only.)
\<close>

definition SplitN2 :: "string \<Rightarrow> string \<Rightarrow> string list" where
  "SplitN2 s sep =
     (case Index s sep of
        None \<Rightarrow> [s]
      | Some m \<Rightarrow> [take m s, drop (m + length sep) s])"

text \<open>\<open>strings.IndexByte\<close>.\<close>

fun IndexByte :: "string \<Rightarrow> char \<Rightarrow> nat option" where
  "IndexByte [] c = None"
| "IndexByte (x # xs) c = (if x = c then Some 0 else map_option Suc (IndexByte xs c))"

text \<open>\<open>strings.Join\<close>.\<close>

fun Join :: "string list \<Rightarrow> string \<Rightarrow> string" where
  "Join [] sep = []"
| "Join [x] sep = x"
| "Join (x # y # ys) sep = x @ sep @ Join (y # ys) sep"

section \<open>The repository handle\<close>

definition dockerHubHost :: string where
  "dockerHubHost = ''registry-1.docker.io''"

definition mediaTypeDockerSchema2ManifestList :: string where
  "mediaTypeDockerSchema2ManifestList = ''application/vnd.docker.distribution.manifest.list.v2+json''"

definition mediaTypeDockerSchema2Manifest :: string where
  "mediaTypeDockerSchema2Manifest = ''application/vnd.docker.distribution.manifest.v2+json''"

text \<open>
  \<open>type Repository struct\<close>. The field \<open>client\<close> is the HTTP transport; it is not data of
  the handle but the environment below.
\<close>

record Repository =
  host :: string
  repo :: string
  user :: string
  password :: string
  token :: string

text \<open>\<open>func New(image, user, password string) *Repository\<close>\<close>

definition New :: "string \<Rightarrow> string \<Rightarrow> string \<Rightarrow> Repository" where
  "New img usr pw =
     (let p = SplitN2 img ''/'' in
      if Contains (p ! 0) ''.'' \<and> length p \<ge> 2
      then \<lparr>host = p ! 0, repo = p ! 1, user = usr, password = pw, token = ''''\<rparr>
      else \<lparr>host = dockerHubHost,
            repo = (if \<not> Contains img ''/'' then ''library/'' @ img else img),
            user = usr, password = pw, token = ''''\<rparr>)"

section \<open>Errors\<close>

text \<open>
  Go \<open>error\<close> values. \<open>ErrDeprecatedManifest\<close> is the package-level sentinel of the source
  (compared by identity in Go, so a constructor of its own). \<open>errors_New msg\<close> is an error
  made inside \<open>client.go\<close> from a message: \<open>errors.New\<close>, \<open>errors.Errorf\<close> and a
  \<open>fmt.Errorf\<close> without \<open>%w\<close>, with the formatted message. \<open>Errorf_w ctx err\<close> is
  \<open>fmt.Errorf(ctx + ": %w", err)\<close>. \<open>foreign\<close> is an error made outside the package
  (net/http, net/url, encoding/json). \<open>nil_dereference\<close> is not an error value but the
  run-time panic of \<open>getImageConfig\<close> when \<open>http.NewRequest\<close> fails there.
\<close>

datatype error =
    ErrDeprecatedManifest
  | errors_New string
  | Errorf_w string error
  | foreign string
  | nil_dereference

section \<open>HTTP requests, responses and the environment\<close>

text \<open>
  A request as far as the source builds it: method, URL and header; a response as far
  as the source reads it: status code, status text, header and body. A header maps a key
  in canonical form (\<open>Accept\<close>, \<open>Authorization\<close>, \<open>Content-Type\<close>, \<open>Www-Authenticate\<close>:
  the keys of the source are canonical as written) to its value; \<open>Header.Set\<close> replaces
  the value and \<open>Header.Get\<close> gives \<open>""\<close> for a key that is absent.
\<close>

record request =
  Method :: string
  URL :: string
  Header :: "string \<rightharpoonup> string"

record response =
  StatusCode :: int
  Status :: string
  RespHeader :: "string \<rightharpoonup> string"
  Body :: string

definition Header_Set :: "(string \<rightharpoonup> string) \<Rightarrow> string \<Rightarrow> string \<Rightarrow> (string \<rightharpoonup> string)" where
  "Header_Set h k v = h(k \<mapsto> v)"

definition Header_Get :: "(string \<rightharpoonup> string) \<Rightarrow> string \<Rightarrow> string" where
  "Header_Get h k = (case h k of None \<Rightarrow> [] | Some v \<Rightarrow> v)"

definition StatusOK :: int where
  "StatusOK = 200"

definition StatusUnauthorized :: int where
  "StatusUnauthorized = 401"

definition MethodGet :: string where
  "MethodGet = ''GET''"

definition MethodHead :: string where
  "MethodHead = ''HEAD''"

text \<open>
  The media types of package \<open>ocispec\<close> (opencontainers/image-spec, \<open>specs-go/v1\<close>), an
  imported library: its constants have these values.
\<close>

definition MediaTypeImageIndex :: string where
  "MediaTypeImageIndex = ''application/vnd.oci.image.index.v1+json''"

definition MediaTypeImageManifest :: string where
  "MediaTypeImageManifest = ''application/vnd.oci.image.manifest.v1+json''"

definition MediaTypeImageConfig :: string where
  "MediaTypeImageConfig = ''application/vnd.oci.image.config.v1+json''"

text \<open>
  The documents of package \<open>ocispec\<close>, with the fields the source reads. A nil
  \<open>*Platform\<close> is \<open>None\<close>.
\<close>

record ocispec_Platform =
  Architecture :: string
  OS :: string

record ocispec_Descriptor =
  Digest :: string
  Platform :: "ocispec_Platform option"

record ocispec_Index =
  Manifests :: "ocispec_Descriptor list"

record ocispec_Manifest =
  Config :: ocispec_Descriptor

record ocispec_Image =
  image_Architecture :: string
  image_OS :: string

text \<open>
  Everything outside the package is a parameter of the model:
  \<^item> \<open>client_Do\<close> is \<open>c.client.Do\<close>: the answer (a transport error or a response) to a
    request, given the requests sent before it, oldest first, so that a server may
    answer the same request differently the second time;
  \<^item> \<open>url_Parse\<close>, \<open>with_RawQuery\<close> (the assignment to \<open>u.RawQuery\<close>), \<open>url_String\<close>
    and \<open>QueryEscape\<close> are package \<open>net/url\<close>, over a type \<open>'u\<close> of parsed URLs;
  \<^item> \<open>basicAuth\<close> is the credential \<open>SetBasicAuth\<close> encodes from user and password;
  \<^item> the four decoders are \<open>json.NewDecoder(body).Decode\<close> into the four types the
    source decodes into; the last one decodes into \<open>struct { Token string }\<close> and gives
    the field, which is the empty string when the document has no such field.
\<close>

record 'u env =
  client_Do :: "request list \<Rightarrow> request \<Rightarrow> error + response"
  url_Parse :: "string \<Rightarrow> error + 'u"
  with_RawQuery :: "'u \<Rightarrow> string \<Rightarrow> 'u"
  url_String :: "'u \<Rightarrow> string"
  QueryEscape :: "string \<Rightarrow> string"
  basicAuth :: "string \<Rightarrow> string \<Rightarrow> string"
  decode_Index :: "string \<Rightarrow> error + ocispec_Index"
  decode_Manifest :: "string \<Rightarrow> error + ocispec_Manifest"
  decode_Image :: "string \<Rightarrow> error + ocispec_Image"
  decode_Token :: "string \<Rightarrow> error + string"

text \<open>
  The state a call works on: the handle \<open>*c\<close> (only \<open>login\<close> changes it) and the
  requests handed to \<open>c.client.Do\<close> so far, oldest first.
\<close>

record world =
  handle :: Repository
  sent :: "request list"

text \<open>
  \<open>http.NewRequest(method, url, nil)\<close> with one of the two methods above: it fails when
  the URL does not parse, and otherwise gives a request with an empty header.
\<close>

definition NewRequest :: "'u env \<Rightarrow> string \<Rightarrow> string \<Rightarrow> error + request" where
  "NewRequest env method u =
     (case url_Parse env u of
        Inl err \<Rightarrow> Inl err
      | Inr _ \<Rightarrow> Inr \<lparr>Method = method, URL = u, Header = Map.empty\<rparr>)"

definition SetBasicAuth :: "'u env \<Rightarrow> request \<Rightarrow> string \<Rightarrow> string \<Rightarrow> request" where
  "SetBasicAuth env req usr pw =
     req\<lparr>Header := Header_Set (Header req) ''Authorization'' (''Basic '' @ basicAuth env usr pw)\<rparr>"

definition Do :: "'u env \<Rightarrow> world \<Rightarrow> request \<Rightarrow> (error + response) \<times> world" where
  "Do env s req = (client_Do env (sent s) req, s\<lparr>sent := sent s @ [req]\<rparr>)"

section \<open>Authentication\<close>

text \<open>\<open>func (c *Repository) login(endpoint, service, scope string) error\<close>\<close>

definition login :: "'u env \<Rightarrow> world \<Rightarrow> string \<Rightarrow> string \<Rightarrow> string \<Rightarrow> error option \<times> world" where
  "login env s endpoint service scope =
     (case url_Parse env endpoint of
        Inl err \<Rightarrow> (Some err, s)
      | Inr u \<Rightarrow>
          (let u' = with_RawQuery env u
                      (Join [''service='' @ QueryEscape env service,
                             ''scope='' @ QueryEscape env scope] ''&'')
           in case NewRequest env MethodGet (url_String env u') of
                Inl err \<Rightarrow> (Some err, s)
              | Inr req \<Rightarrow>
                  (let req' = (if user (handle s) \<noteq> [] \<and> password (handle s) \<noteq> []
                               then SetBasicAuth env req (user (handle s)) (password (handle s))
                               else req)
                   in case Do env s req' of
                        (Inl err, s1) \<Rightarrow> (Some err, s1)
                      | (Inr resp, s1) \<Rightarrow>
                          if StatusCode resp \<noteq> StatusOK
                          then (Some (errors_New (''login failed '' @ Status resp)), s1)
                          else (case decode_Token env (Body resp) of
                                  Inl err \<Rightarrow> (Some err, s1)
                                | Inr tok \<Rightarrow>
                                    if tok = []
                                    then (Some (errors_New ''response does not contains token''), s1)
                                    else (None, s1\<lparr>handle := (handle s1)\<lparr>token := tok\<rparr>\<rparr>)))))"

text \<open>\<open>func (c *Repository) setAuthHeader(req *http.Request)\<close>\<close>

definition setAuthHeader :: "Repository \<Rightarrow> request \<Rightarrow> request" where
  "setAuthHeader c req =
     (if user c = ''AWS'' \<and> password c \<noteq> []
      then req\<lparr>Header := Header_Set (Header req) ''Authorization'' (''Basic '' @ password c)\<rparr>
      else if token c \<noteq> []
      then req\<lparr>Header := Header_Set (Header req) ''Authorization'' (''Bearer '' @ token c)\<rparr>
      else req)"

section \<open>Manifest transport\<close>

text \<open>\<open>func (c *Repository) fetchManifests(method, tag string) (*http.Response, error)\<close>\<close>

definition fetchManifests :: "'u env \<Rightarrow> world \<Rightarrow> string \<Rightarrow> string \<Rightarrow> (error + response) \<times> world" where
  "fetchManifests env s method tag =
     (let u = ''https://'' @ host (handle s) @ ''/v2/'' @ repo (handle s) @ ''/manifests/'' @ tag
      in case NewRequest env method u of
           Inl err \<Rightarrow> (Inl err, s)
         | Inr req \<Rightarrow>
             Do env s
               (setAuthHeader (handle s)
                 (req\<lparr>Header := Header_Set (Header req) ''Accept''
                    (Join [mediaTypeDockerSchema2ManifestList,
                           MediaTypeImageIndex,
                           mediaTypeDockerSchema2Manifest,
                           MediaTypeImageManifest] '', '')\<rparr>)))"

text \<open>
  \<open>getAvailability\<close>: the HEAD probe. Closing the body leaves the response as it is.
\<close>

definition getAvailability :: "'u env \<Rightarrow> world \<Rightarrow> string \<Rightarrow> (error + response) \<times> world" where
  "getAvailability env s tag =
     (case fetchManifests env s MethodHead tag of
        (Inl err, s1) \<Rightarrow> (Inl err, s1)
      | (Inr resp, s1) \<Rightarrow> (Inr resp, s1))"

definition parseContentType :: "string \<Rightarrow> string" where
  "parseContentType contentType =
     (case IndexByte contentType (CHR '';'') of
        None \<Rightarrow> contentType
      | Some i \<Rightarrow> take i contentType)"

text \<open>\<open>getManifests\<close>: the media type and the body of the GET, or an error.\<close>

definition getManifests :: "'u env \<Rightarrow> world \<Rightarrow> string \<Rightarrow> (error + string \<times> string) \<times> world" where
  "getManifests env s tag =
     (case fetchManifests env s MethodGet tag of
        (Inl err, s1) \<Rightarrow> (Inl err, s1)
      | (Inr resp, s1) \<Rightarrow>
          if StatusCode resp \<noteq> StatusOK
          then (Inl (errors_New (Status resp)), s1)
          else (Inr (parseContentType (Header_Get (RespHeader resp) ''Content-Type''), Body resp), s1))"

text \<open>
  \<open>getImageConfig\<close>. The source drops the error of \<open>http.NewRequest\<close>; when there is
  one the request is nil and setting its header panics.
\<close>

definition getImageConfig :: "'u env \<Rightarrow> world \<Rightarrow> string \<Rightarrow> (error + string) \<times> world" where
  "getImageConfig env s digest =
     (let u = ''https://'' @ host (handle s) @ ''/v2/'' @ repo (handle s) @ ''/blobs/'' @ digest
      in case NewRequest env MethodGet u of
           Inl err \<Rightarrow> (Inl nil_dereference, s)
         | Inr req \<Rightarrow>
             (case Do env s
                     (setAuthHeader (handle s)
                       (req\<lparr>Header := Header_Set (Header req) ''Accept''
                          (Join [''application/vnd.docker.container.image.v1+json'',
                                 MediaTypeImageConfig] '', '')\<rparr>)) of
                (Inl err, s1) \<Rightarrow> (Inl err, s1)
              | (Inr resp, s1) \<Rightarrow>
                  if StatusCode resp \<noteq> StatusOK
                  then (Inl (errors_New (Status resp)), s1)
                  else (Inr (Body resp), s1)))"

section \<open>The Bearer challenge\<close>

text \<open>
  \<open>partRegexp\<close> is \<open>[a-zA-Z0-9_]+="[^"]*"\<close>. \<open>matchPart s\<close> matches it at the start of
  \<open>s\<close>: the longest run of word characters (a shorter run is followed by a word
  character, never by \<open>=\<close>), then \<open>="\<close>, then everything up to the next double quote,
  which must be there. It gives the match and the rest of the string. The double quote is
  \<open>CHR 0x22\<close>.
\<close>

definition isWordChar :: "char \<Rightarrow> bool" where
  "isWordChar c =
     (c \<in> set ''abcdefghijklmnopqrstuvwxyzABCDEFGHIJKLMNOPQRSTUVWXYZ0123456789_'')"

definition matchPart :: "string \<Rightarrow> (string \<times> string) option" where
  "matchPart s =
     (let name = takeWhile isWordChar s; r = dropWhile isWordChar s
      in if name = [] then None
         else (case r of
                 e # q # r2 \<Rightarrow>
                   if e = CHR ''='' \<and> q = CHR 0x22
                   then (let v = takeWhile (\<lambda>c. c \<noteq> CHR 0x22) r2;
                             r3 = dropWhile (\<lambda>c. c \<noteq> CHR 0x22) r2
                         in case r3 of
                              [] \<Rightarrow> None
                            | q2 # r4 \<Rightarrow> Some (name @ [e, q] @ v @ [q2], r4))
                   else None
               | _ \<Rightarrow> None))"

lemma matchPart_shorter: "matchPart s = Some (m, rest) \<Longrightarrow> length rest < length s"
proof -
  assume a: "matchPart s = Some (m, rest)"
  obtain e q r2 where r: "dropWhile isWordChar s = e # q # r2"
    using a by (auto simp: matchPart_def Let_def split: if_splits list.splits)
  obtain q2 where r3: "dropWhile (\<lambda>c. c \<noteq> CHR 0x22) r2 = q2 # rest"
    using a r by (auto simp: matchPart_def Let_def split: if_splits list.splits)
  have "length (dropWhile isWordChar s) \<le> length s"
    by (rule length_dropWhile_le)
  moreover have "length (dropWhile (\<lambda>c. c \<noteq> CHR 0x22) r2) \<le> length r2"
    by (rule length_dropWhile_le)
  ultimately show ?thesis
    using r r3 by simp
qed

text \<open>
  \<open>partRegexp.FindAllString(s, -1)\<close>: the leftmost match, then the matches of what
  follows it; where no match starts, the search moves one character on.
\<close>

function FindAllString :: "string \<Rightarrow> string list" where
  "FindAllString s =
     (if s = [] then []
      else (case matchPart s of
              None \<Rightarrow> FindAllString (tl s)
            | Some (m, rest) \<Rightarrow> m # FindAllString rest))"
  by pat_completeness auto
termination
  by (relation "measure length") (auto dest: matchPart_shorter)

text \<open>A Go map of strings read at a key that may be absent.\<close>

definition map_index :: "(string \<rightharpoonup> string) \<Rightarrow> string \<Rightarrow> string" where
  "map_index m k = (case m k of None \<Rightarrow> [] | Some v \<Rightarrow> v)"

text \<open>
  \<open>func parseAuthHeader(bearer string) (endpoint, service, scope string)\<close>. The value
  of a part is \<open>kv[1][1 : len(kv[1])-1]\<close>, the text between the quotes.
\<close>

definition parseAuthHeader :: "string \<Rightarrow> string \<times> string \<times> string" where
  "parseAuthHeader bearer =
     (let parsed =
            fold (\<lambda>part m.
                    (let kv = SplitN2 part ''=''
                     in m(kv ! 0 \<mapsto> drop 1 (take (length (kv ! 1) - 1) (kv ! 1)))))
                 (FindAllString bearer) Map.empty
      in (map_index parsed ''realm'', map_index parsed ''service'', map_index parsed ''scope''))"

section \<open>Platform resolution\<close>

text \<open>\<open>func match(want, got string) bool\<close>\<close>

definition match :: "string \<Rightarrow> string \<Rightarrow> bool" where
  "match want got = (want = [] \<or> want = got)"

text \<open>
  The loop \<open>for _, desc := range manifestList.Manifests\<close> of \<open>HasPlatformImage\<close>:
  \<open>True\<close> when the loop returns nil, \<open>False\<close> when it runs to the end of the list.
\<close>

fun rangeManifests :: "string \<Rightarrow> string \<Rightarrow> ocispec_Descriptor list \<Rightarrow> bool" where
  "rangeManifests arch os [] = False"
| "rangeManifests arch os (desc # rest) =
     (case Platform desc of
        None \<Rightarrow> True
      | Some p \<Rightarrow>
          if match arch (Architecture p) \<and> match os (OS p) then True
          else rangeManifests arch os rest)"

text \<open>
  \<open>func (c *Repository) HasPlatformImage(tag, arch, os string) error\<close>; \<open>None\<close> is a nil
  error. The cases of the \<open>switch\<close> are tried in the order of the source.
\<close>

definition HasPlatformImage ::
  "'u env \<Rightarrow> world \<Rightarrow> string \<Rightarrow> string \<Rightarrow> string \<Rightarrow> error option \<times> world" where
  "HasPlatformImage env s tag arch os =
     (case getManifests env s tag of
        (Inl err, s1) \<Rightarrow> (Some err, s1)
      | (Inr (mediaType, rc), s1) \<Rightarrow>
          if mediaType = MediaTypeImageIndex \<or> mediaType = mediaTypeDockerSchema2ManifestList
          then (case decode_Index env rc of
                  Inl err \<Rightarrow> (Some (Errorf_w ''manifest list decode error'' err), s1)
                | Inr manifestList \<Rightarrow>
                    if rangeManifests arch os (Manifests manifestList) then (None, s1)
                    else (Some (errors_New (''no image for '' @ arch @ ''/'' @ os)), s1))
          else if mediaType = mediaTypeDockerSchema2Manifest \<or> mediaType = MediaTypeImageManifest
          then (case decode_Manifest env rc of
                  Inl err \<Rightarrow> (Some (Errorf_w ''manifest decode error'' err), s1)
                | Inr manifest \<Rightarrow>
                    if (case Platform (Config manifest) of
                          None \<Rightarrow> False
                        | Some p \<Rightarrow> match arch (OS p) \<and> match os (Architecture p))
                    then (None, s1)
                    else (case getImageConfig env s1 (Digest (Config manifest)) of
                            (Inl err, s2) \<Rightarrow> (Some err, s2)
                          | (Inr rc2, s2) \<Rightarrow>
                              (case decode_Image env rc2 of
                                 Inl err \<Rightarrow> (Some (Errorf_w ''image config decode error'' err), s2)
                               | Inr img \<Rightarrow>
                                   if match arch (image_Architecture img) \<and> match os (image_OS img)
                                   then (None, s2)
                                   else (Some (errors_New (''no image for '' @ arch @ ''/'' @ os)), s2))))
          else if mediaType = ''application/vnd.docker.distribution.manifest.v1+prettyjws'' \<or>
                  mediaType = ''application/vnd.docker.distribution.manifest.v1+json''
          then (Some ErrDeprecatedManifest, s1)
          else (Some (errors_New (''unknown MediaType '' @ mediaType)), s1))"

section \<open>Existence check\<close>

text \<open>
  \<open>func (c *Repository) HasImage(tag string) (bool, error)\<close>. The loop
  \<open>for tries > 0 { tries--; ... }\<close> is a recursion on \<open>tries\<close>; the result is the pair the
  source returns, \<open>None\<close> for a nil error. In the \<open>switch\<close>, the case of status 401 returns
  only when \<open>login\<close> fails: otherwise control leaves the \<open>switch\<close> and the loop goes on.
\<close>

fun HasImage_loop :: "'u env \<Rightarrow> nat \<Rightarrow> world \<Rightarrow> string \<Rightarrow> (bool \<times> error option) \<times> world" where
  "HasImage_loop env 0 s tag = ((False, Some (errors_New ''aborted'')), s)"
| "HasImage_loop env (Suc tries) s tag =
     (case getAvailability env s tag of
        (Inl err, s1) \<Rightarrow> ((False, Some err), s1)
      | (Inr resp, s1) \<Rightarrow>
          if StatusCode resp = StatusUnauthorized
          then (let h = Header_Get (RespHeader resp) ''Www-Authenticate''
                in if HasPrefix h ''Bearer ''
                   then (let auth = SplitN2 h '' '' ! 1
                         in case parseAuthHeader auth of
                              (endpoint, service, scope) \<Rightarrow>
                                (case login env s1 endpoint service scope of
                                   (Some err, s2) \<Rightarrow> ((False, Some err), s2)
                                 | (None, s2) \<Rightarrow> HasImage_loop env tries s2 tag))
                   else HasImage_loop env tries s1 tag)
          else if StatusCode resp = StatusOK then ((True, None), s1)
          else ((False, Some (errors_New (Status resp))), s1))"

definition HasImage :: "'u env \<Rightarrow> world \<Rightarrow> string \<Rightarrow> (bool \<times> error option) \<times> world" where
  "HasImage env s tag = HasImage_loop env (Suc (Suc 0)) s tag"

section \<open>The requests the transport builds\<close>

text \<open>
  Names for the requests that \<open>fetchManifests\<close>, \<open>getImageConfig\<close> and \<open>login\<close> hand to
  the transport, and for the step of \<open>HasImage\<close> that answers a 401; the lemmas
  \<open>fetchManifests_eq\<close>, \<open>getImageConfig_eq\<close>, \<open>login_eq\<close> and \<open>loop_unauthorized\<close> show
  that these are what the functions of the source do. \<open>count_method\<close> counts the requests
  of one HTTP method in a list of requests.
\<close>

definition acceptManifests :: string where
  "acceptManifests =
     Join [mediaTypeDockerSchema2ManifestList, MediaTypeImageIndex,
           mediaTypeDockerSchema2Manifest, MediaTypeImageManifest] '', ''"

definition manifestsURL :: "Repository \<Rightarrow> string \<Rightarrow> string" where
  "manifestsURL c tag = ''https://'' @ host c @ ''/v2/'' @ repo c @ ''/manifests/'' @ tag"

definition manifestsRequest :: "Repository \<Rightarrow> string \<Rightarrow> string \<Rightarrow> request" where
  "manifestsRequest c method tag =
     setAuthHeader c \<lparr>Method = method, URL = manifestsURL c tag,
                      Header = [''Accept'' \<mapsto> acceptManifests]\<rparr>"

definition blobRequest :: "Repository \<Rightarrow> string \<Rightarrow> request" where
  "blobRequest c digest =
     setAuthHeader c
       \<lparr>Method = MethodGet,
        URL = ''https://'' @ host c @ ''/v2/'' @ repo c @ ''/blobs/'' @ digest,
        Header = [''Accept'' \<mapsto> Join [''application/vnd.docker.container.image.v1+json'',
                                         MediaTypeImageConfig] '', '']\<rparr>"

definition loginRequest :: "'u env \<Rightarrow> Repository \<Rightarrow> 'u \<Rightarrow> string \<Rightarrow> string \<Rightarrow> request" where
  "loginRequest env c u service scope =
     (let target = url_String env (with_RawQuery env u
                     (''service='' @ QueryEscape env service @ ''&'' @ ''scope='' @ QueryEscape env scope))
      in \<lparr>Method = MethodGet, URL = target,
          Header = (if user c \<noteq> [] \<and> password c \<noteq> []
                    then [''Authorization'' \<mapsto> ''Basic '' @ basicAuth env (user c) (password c)]
                    else Map.empty)\<rparr>)"

definition reauth :: "'u env \<Rightarrow> world \<Rightarrow> response \<Rightarrow> error option \<times> world" where
  "reauth env s1 resp =
     (let h = Header_Get (RespHeader resp) ''Www-Authenticate''
      in if HasPrefix h ''Bearer ''
         then (case parseAuthHeader (SplitN2 h '' '' ! 1) of
                 (endpoint, service, scope) \<Rightarrow> login env s1 endpoint service scope)
         else (None, s1))"

definition count_method :: "string \<Rightarrow> request list \<Rightarrow> nat" where
  "count_method m reqs = length (filter (\<lambda>r. Method r = m) reqs)"

section \<open>Example registries\<close>

text \<open>
  Concrete environments on which the theorems below are evaluated. URLs are plain
  strings that always parse, nothing is escaped, and a body is decoded by name.
\<close>

definition reply :: "int \<Rightarrow> string \<Rightarrow> (string \<rightharpoonup> string) \<Rightarrow> string \<Rightarrow> error + response" where
  "reply code status hdr body =
     Inr \<lparr>StatusCode = code, Status = status, RespHeader = hdr, Body = body\<rparr>"

definition example_env :: "(request list \<Rightarrow> request \<Rightarrow> error + response) \<Rightarrow> string env" where
  "example_env server =
     \<lparr>client_Do = server,
      url_Parse = (\<lambda>u. Inr u),
      with_RawQuery = (\<lambda>u q. u @ ''?'' @ q),
      url_String = (\<lambda>u. u),
      QueryEscape = (\<lambda>x. x),
      basicAuth = (\<lambda>usr pw. usr @ '':'' @ pw),
      decode_Index = (\<lambda>b.
        if b = ''index''
        then Inr \<lparr>Manifests =
                   [\<lparr>Digest = ''sha256:01'',
                     Platform = Some \<lparr>Architecture = ''arm64'', OS = ''linux''\<rparr>\<rparr>,
                    \<lparr>Digest = ''sha256:02'', Platform = None\<rparr>,
                    \<lparr>Digest = ''sha256:03'',
                     Platform = Some \<lparr>Architecture = ''amd64'', OS = ''linux''\<rparr>\<rparr>]\<rparr>
        else Inl (foreign ''unexpected end of JSON input'')),
      decode_Manifest = (\<lambda>b.
        if b = ''manifest''
        then Inr \<lparr>Config = \<lparr>Digest = ''sha256:04'',
                              Platform = Some \<lparr>Architecture = ''amd64'', OS = ''linux''\<rparr>\<rparr>\<rparr>
        else Inl (foreign ''unexpected end of JSON input'')),
      decode_Image = (\<lambda>b.
        if b = ''{}'' then Inr \<lparr>image_Architecture = [], image_OS = []\<rparr>
        else Inl (foreign ''unexpected end of JSON input'')),
      decode_Token = (\<lambda>b.
        if b = ''token'' then Inr ''t0k3n''
        else if b = ''{}'' then Inr []
        else Inl (foreign ''unexpected end of JSON input''))\<rparr>"

definition example_world :: world where
  "example_world = \<lparr>handle = New ''registry.example.com/team/app'' [] [], sent = []\<rparr>"

definition ecr_world :: "string \<Rightarrow> string \<Rightarrow> world" where
  "ecr_world pw tok =
     \<lparr>handle = (New ''123456789012.dkr.ecr.us-east-1.amazonaws.com/app'' ''AWS'' pw)\<lparr>token := tok\<rparr>,
      sent = []\<rparr>"

definition registry_index :: "request list \<Rightarrow> request \<Rightarrow> error + response" where
  "registry_index history req =
     reply 200 ''200 OK'' [''Content-Type'' \<mapsto> mediaTypeDockerSchema2ManifestList] ''index''"


definition auth_unavailable :: "request list \<Rightarrow> request \<Rightarrow> error + response" where
  "auth_unavailable history req = reply 503 ''503 Service Unavailable'' Map.empty []"

definition auth_without_token :: "request list \<Rightarrow> request \<Rightarrow> error + response" where
  "auth_without_token history req = reply 200 ''200 OK'' Map.empty ''{}''"

definition auth_issuing :: "request list \<Rightarrow> request \<Rightarrow> error + response" where
  "auth_issuing history req = reply 200 ''200 OK'' Map.empty ''token''"

definition registry_legacy :: "request list \<Rightarrow> request \<Rightarrow> error + response" where
  "registry_legacy history req =
     reply 200 ''200 OK''
       [''Content-Type'' \<mapsto> ''application/vnd.docker.distribution.manifest.v1+prettyjws; charset=utf-8'']
       ''signed''"

definition registry_single :: "request list \<Rightarrow> request \<Rightarrow> error + response" where
  "registry_single history req =
     (if HasPrefix (URL req) ''https://registry.example.com/v2/team/app/blobs/''
      then reply 200 ''200 OK'' [''Content-Type'' \<mapsto> ''application/octet-stream''] ''{}''
      else reply 200 ''200 OK'' [''Content-Type'' \<mapsto> mediaTypeDockerSchema2Manifest] ''manifest'')"

definition quoted :: "string \<Rightarrow> string" where
  "quoted v = CHR 0x22 # v @ [CHR 0x22]"

definition example_challenge :: string where
  "example_challenge =
     ''Bearer realm='' @ quoted ''https://auth.example.com/token'' @
     '',service='' @ quoted ''registry.example.com'' @
     '',scope='' @ quoted ''repository:team/app:pull''"

definition unauthorized :: "(string \<rightharpoonup> string) \<Rightarrow> error + response" where
  "unauthorized hdr = reply 401 ''401 Unauthorized'' hdr []"

definition registry_challenging :: "request list \<Rightarrow> request \<Rightarrow> error + response" where
  "registry_challenging history req =
     (if Method req = MethodHead
      then unauthorized [''Www-Authenticate'' \<mapsto> example_challenge]
      else reply 200 ''200 OK'' Map.empty ''token'')"

definition registry_token_required :: "request list \<Rightarrow> request \<Rightarrow> error + response" where
  "registry_token_required history req =
     (if Method req = MethodHead
      then (if Header req ''Authorization'' = Some ''Bearer t0k3n''
            then reply 200 ''200 OK'' Map.empty []
            else unauthorized [''Www-Authenticate'' \<mapsto> example_challenge])
      else reply 200 ''200 OK'' Map.empty ''token'')"

definition registry_bare_401_once :: "request list \<Rightarrow> request \<Rightarrow> error + response" where
  "registry_bare_401_once history req =
     (if history = [] then unauthorized Map.empty else reply 200 ''200 OK'' Map.empty [])"

definition registry_bare_401 :: "request list \<Rightarrow> request \<Rightarrow> error + response" where
  "registry_bare_401 history req = unauthorized Map.empty"

definition registry_forbidden :: "request list \<Rightarrow> request \<Rightarrow> error + response" where
  "registry_forbidden history req = reply 403 ''403 Forbidden'' Map.empty []"

definition registry_forbidden_with_token :: "request list \<Rightarrow> request \<Rightarrow> error + response" where
  "registry_forbidden_with_token history req =
     (if Method req = MethodHead
      then (if Header req ''Authorization'' = Some ''Bearer t0k3n''
            then reply 403 ''403 Forbidden'' Map.empty []
            else unauthorized [''Www-Authenticate'' \<mapsto> example_challenge])
      else reply 200 ''200 OK'' Map.empty ''token'')"

text \<open>The probe of a handle with token \<open>tok\<close> on the example repository.\<close>

definition probe_with :: "string \<Rightarrow> request" where
  "probe_with tok =
     manifestsRequest ((handle example_world)\<lparr>token := tok\<rparr>) MethodHead ''latest''"

definition token_request :: request where
  "token_request =
     \<lparr>Method = MethodGet,
      URL = ''https://auth.example.com/token?service=registry.example.com&scope=repository:team/app:pull'',
      Header = Map.empty\<rparr>"

definition challenge_response :: response where
  "challenge_response =
     \<lparr>StatusCode = 401, Status = ''401 Unauthorized'',
      RespHeader = [''Www-Authenticate'' \<mapsto> example_challenge], Body = []\<rparr>"

definition bare_401_response :: response where
  "bare_401_response =
     \<lparr>StatusCode = 401, Status = ''401 Unauthorized'', RespHeader = Map.empty, Body = []\<rparr>"

text \<open>
  The worlds of a run on the example repository: after the first probe, after the token
  exchange that follows it, after the second probe and after a second token exchange.
\<close>

definition after_probe :: world where
  "after_probe = example_world\<lparr>sent := [probe_with []]\<rparr>"

definition after_login :: world where
  "after_login =
     example_world\<lparr>sent := [probe_with [], token_request],
                   handle := (handle example_world)\<lparr>token := ''t0k3n''\<rparr>\<rparr>"

definition after_second_probe :: world where
  "after_second_probe =
     example_world\<lparr>sent := [probe_with [], token_request, probe_with ''t0k3n''],
                   handle := (handle example_world)\<lparr>token := ''t0k3n''\<rparr>\<rparr>"

definition after_second_login :: world where
  "after_second_login =
     example_world\<lparr>sent := [probe_with [], token_request, probe_with ''t0k3n'', token_request],
                   handle := (handle example_world)\<lparr>token := ''t0k3n''\<rparr>\<rparr>"

definition after_two_probes :: world where
  "after_two_probes = example_world\<lparr>sent := [probe_with [], probe_with []]\<rparr>"

section \<open>Facts about the string functions\<close>

lemma Index_single_None: "c \<notin> set s \<Longrightarrow> Index s [c] = None"
  by (induction s) (auto simp: HasPrefix_def)

lemma Index_single_first:
  "c \<notin> set seg \<Longrightarrow> Index (seg @ c # rest) [c] = Some (length seg)"
  by (induction seg) (auto simp: HasPrefix_def)

lemma Contains_single: "Contains s [c] \<longleftrightarrow> c \<in> set s"
proof (induction s)
  case Nil
  show ?case by (simp add: Contains_def)
next
  case (Cons x xs)
  then show ?case by (auto simp: Contains_def HasPrefix_def)
qed

lemma SplitN2_absent: "c \<notin> set s \<Longrightarrow> SplitN2 s [c] = [s]"
  by (simp add: SplitN2_def Index_single_None)

lemma SplitN2_first:
  "c \<notin> set seg \<Longrightarrow> SplitN2 (seg @ c # rest) [c] = [seg, rest]"
  by (simp add: SplitN2_def Index_single_first)

text \<open>\<open>p[0]\<close> in \<open>New\<close> is always in range: \<open>SplitN\<close> never returns an empty slice here.\<close>

lemma SplitN2_nonempty: "SplitN2 s sep \<noteq> []"
  by (simp add: SplitN2_def split: option.splits)

section \<open>Indexing stays in range\<close>

text \<open>
  The model reads \<open>strings.SplitN(h, " ", 2)[1]\<close>, \<open>kv[0]\<close>, \<open>kv[1]\<close> and the slice
  \<open>kv[1][1 : len(kv[1])-1]\<close> with \<open>!\<close>, \<open>take\<close> and \<open>drop\<close>. Where the source evaluates
  them they are in range, so no panic of the source is hidden: a header with the prefix
  \<open>Bearer \<close> splits in two at its first space, and every match of \<open>partRegexp\<close> splits at
  its first \<open>=\<close> into a name and a quoted value of length at least two.
\<close>

lemma SplitN2_Bearer:
  assumes "HasPrefix h ''Bearer ''"
  shows "SplitN2 h '' '' = [''Bearer'', drop 7 h]"
proof -
  have t: "take 7 h = ''Bearer ''"
    using assms by (simp add: HasPrefix_def eval_nat_numeral)
  have "take 7 h @ drop 7 h = h"
    by (rule append_take_drop_id)
  then have "''Bearer '' @ drop 7 h = h"
    unfolding t .
  then have "h = ''Bearer'' @ CHR '' '' # drop 7 h"
    by simp
  moreover have "SplitN2 (''Bearer'' @ CHR '' '' # drop 7 h) [CHR '' ''] = [''Bearer'', drop 7 h]"
    by (rule SplitN2_first) simp
  ultimately show ?thesis
    by simp
qed

lemma isWordChar_not_eq: "isWordChar c \<Longrightarrow> c \<noteq> CHR ''=''"
  by (auto simp: isWordChar_def)

lemma matchPart_shape:
  assumes "matchPart s = Some (m, rest)"
  shows "\<exists>name v. m = name @ CHR ''='' # CHR 0x22 # v @ [CHR 0x22] \<and> name \<noteq> [] \<and>
           CHR ''='' \<notin> set name \<and> CHR 0x22 \<notin> set v \<and> s = m @ rest"
proof -
  let ?name = "takeWhile isWordChar s"
  obtain r2 where r: "dropWhile isWordChar s = CHR ''='' # CHR 0x22 # r2" and ne: "?name \<noteq> []"
    using assms by (auto simp: matchPart_def Let_def split: if_splits list.splits)
  let ?v = "takeWhile (\<lambda>c. c \<noteq> CHR 0x22) r2"
  obtain q2 where r3: "dropWhile (\<lambda>c. c \<noteq> CHR 0x22) r2 = q2 # rest"
    and m: "m = ?name @ [CHR ''='', CHR 0x22] @ ?v @ [q2]"
    using assms r by (auto simp: matchPart_def Let_def split: if_splits list.splits)
  have q2: "q2 = CHR 0x22"
    using r3 hd_dropWhile [of "\<lambda>c. c \<noteq> CHR 0x22" r2] by force
  have "CHR ''='' \<notin> set ?name"
    using isWordChar_not_eq by (auto dest: set_takeWhileD)
  moreover have "CHR 0x22 \<notin> set ?v"
    by (auto dest: set_takeWhileD)
  moreover have "s = ?name @ dropWhile isWordChar s"
    by simp
  then have "s = ?name @ CHR ''='' # CHR 0x22 # r2"
    using r by simp
  moreover have "r2 = ?v @ dropWhile (\<lambda>c. c \<noteq> CHR 0x22) r2"
    by simp
  then have "r2 = ?v @ q2 # rest"
    using r3 by simp
  ultimately have "s = m @ rest"
    using m by simp
  with m q2 ne \<open>CHR ''='' \<notin> set ?name\<close> \<open>CHR 0x22 \<notin> set ?v\<close> show ?thesis
    by auto
qed

lemma FindAllString_matches:
  "part \<in> set (FindAllString s) \<Longrightarrow> \<exists>s' rest. matchPart s' = Some (part, rest)"
proof (induction s rule: FindAllString.induct)
  case (1 s)
  show ?case
  proof (cases "s = []")
    case True
    with "1.prems" show ?thesis by simp
  next
    case False
    show ?thesis
    proof (cases "matchPart s")
      case None
      with False "1.prems" "1.IH"(1) show ?thesis by simp
    next
      case (Some a)
      obtain m rest where a: "a = (m, rest)"
        by (cases a)
      with False Some "1.prems" have "part = m \<or> part \<in> set (FindAllString rest)"
        by simp
      then show ?thesis
      proof
        assume "part = m"
        with Some a show ?thesis by blast
      next
        assume "part \<in> set (FindAllString rest)"
        with False Some a "1.IH"(2) show ?thesis by simp
      qed
    qed
  qed
qed

lemma part_in_range:
  assumes "part \<in> set (FindAllString s)"
  shows "\<exists>name v. SplitN2 part ''='' = [name, CHR 0x22 # v @ [CHR 0x22]] \<and>
           drop 1 (take (length (SplitN2 part ''='' ! 1) - 1) (SplitN2 part ''='' ! 1)) = v"
proof -
  obtain s' rest where "matchPart s' = Some (part, rest)"
    using assms FindAllString_matches by blast
  then obtain name v where p: "part = name @ CHR ''='' # CHR 0x22 # v @ [CHR 0x22]"
    and n: "CHR ''='' \<notin> set name"
    using matchPart_shape by blast
  have "SplitN2 (name @ CHR ''='' # (CHR 0x22 # v @ [CHR 0x22])) [CHR ''=''] =
      [name, CHR 0x22 # v @ [CHR 0x22]]"
    using n by (rule SplitN2_first)
  with p have sp: "SplitN2 part ''='' = [name, CHR 0x22 # v @ [CHR 0x22]]"
    by simp
  then show ?thesis
    by simp
qed

section \<open>Reference resolution\<close>

text \<open>
  C7. Reference resolution is a total function of the image string (a HOL function, so
  total and deterministic). A string \<open>seg/rest\<close> whose first segment \<open>seg\<close> (the part
  before the first slash) contains a dot resolves to host \<open>seg\<close> and repository path
  \<open>rest\<close>. Every other string resolves to the Docker Hub host: a string with no slash gets
  the prefix \<open>library/\<close>, a string \<open>seg/rest\<close> whose first segment has no dot is kept whole.
  Every string is of one of these three shapes.
\<close>

theorem New_resolves_reference:
  "(CHR ''/'' \<notin> set seg \<and> CHR ''.'' \<in> set seg \<longrightarrow>
      host (New (seg @ ''/'' @ rest) usr pw) = seg \<and>
      repo (New (seg @ ''/'' @ rest) usr pw) = rest) \<and>
   (CHR ''/'' \<notin> set img \<longrightarrow>
      host (New img usr pw) = dockerHubHost \<and>
      repo (New img usr pw) = ''library/'' @ img) \<and>
   (CHR ''/'' \<notin> set seg \<and> CHR ''.'' \<notin> set seg \<longrightarrow>
      host (New (seg @ ''/'' @ rest) usr pw) = dockerHubHost \<and>
      repo (New (seg @ ''/'' @ rest) usr pw) = seg @ ''/'' @ rest) \<and>
   (CHR ''/'' \<in> set img \<longrightarrow>
      (\<exists>s r. img = s @ ''/'' @ r \<and> CHR ''/'' \<notin> set s))"
proof (intro conjI impI)
  assume h: "CHR ''/'' \<notin> set seg \<and> CHR ''.'' \<in> set seg"
  then have sp: "SplitN2 (seg @ CHR ''/'' # rest) ''/'' = [seg, rest]"
    using SplitN2_first [of "CHR ''/''" seg rest] by simp
  show "host (New (seg @ ''/'' @ rest) usr pw) = seg"
    using h by (simp add: New_def sp Contains_single)
  show "repo (New (seg @ ''/'' @ rest) usr pw) = rest"
    using h by (simp add: New_def sp Contains_single)
next
  assume h: "CHR ''/'' \<notin> set img"
  then have sp: "SplitN2 img ''/'' = [img]"
    using SplitN2_absent [of "CHR ''/''" img] by simp
  show "host (New img usr pw) = dockerHubHost"
    by (simp add: New_def sp)
  show "repo (New img usr pw) = ''library/'' @ img"
    using h by (simp add: New_def sp Contains_single)
next
  assume h: "CHR ''/'' \<notin> set seg \<and> CHR ''.'' \<notin> set seg"
  then have sp: "SplitN2 (seg @ CHR ''/'' # rest) ''/'' = [seg, rest]"
    using SplitN2_first [of "CHR ''/''" seg rest] by simp
  show "host (New (seg @ ''/'' @ rest) usr pw) = dockerHubHost"
    using h by (simp add: New_def sp Contains_single)
  show "repo (New (seg @ ''/'' @ rest) usr pw) = seg @ ''/'' @ rest"
    using h by (simp add: New_def sp Contains_single)
next
  assume "CHR ''/'' \<in> set img"
  then obtain s r where "img = s @ CHR ''/'' # r" and "CHR ''/'' \<notin> set s"
    using split_list_first [of "CHR ''/''" img] by blast
  then show "\<exists>s r. img = s @ ''/'' @ r \<and> CHR ''/'' \<notin> set s"
    by auto
qed

theorem New_resolves_reference_witness:
  "host (New ''registry.example.com/team/app'' ''u'' ''p'') = ''registry.example.com'' \<and>
   repo (New ''registry.example.com/team/app'' ''u'' ''p'') = ''team/app'' \<and>
   host (New ''nginx'' ''u'' ''p'') = ''registry-1.docker.io'' \<and>
   repo (New ''nginx'' ''u'' ''p'') = ''library/nginx'' \<and>
   host (New ''myuser/app.v2'' ''u'' ''p'') = ''registry-1.docker.io'' \<and>
   repo (New ''myuser/app.v2'' ''u'' ''p'') = ''myuser/app.v2'' \<and>
   (\<exists>s r. ''myuser/app.v2'' = s @ ''/'' @ r \<and> CHR ''/'' \<notin> set s)"
  using New_resolves_reference [of "''registry.example.com''" "''team/app''" "''u''" "''p''" "''nginx''"]
    New_resolves_reference [of "''myuser''" "''app.v2''" "''u''" "''p''" "''myuser/app.v2''"]
  by (simp add: dockerHubHost_def)

section \<open>Facts about the transport\<close>

lemma Do_eq: "Do env s req = (client_Do env (sent s) req, s\<lparr>sent := sent s @ [req]\<rparr>)"
  by (simp add: Do_def)

lemma fetchManifests_eq:
  "fetchManifests env s method tag =
     (case url_Parse env (manifestsURL (handle s) tag) of
        Inl err \<Rightarrow> (Inl err, s)
      | Inr _ \<Rightarrow>
          (client_Do env (sent s) (manifestsRequest (handle s) method tag),
           s\<lparr>sent := sent s @ [manifestsRequest (handle s) method tag]\<rparr>))"
  by (simp add: fetchManifests_def NewRequest_def Do_def manifestsRequest_def manifestsURL_def
      acceptManifests_def Header_Set_def Let_def split: sum.splits)

lemma setAuthHeader_Method: "Method (setAuthHeader c req) = Method req"
  by (simp add: setAuthHeader_def)

lemma setAuthHeader_URL: "URL (setAuthHeader c req) = URL req"
  by (simp add: setAuthHeader_def)

lemma setAuthHeader_Accept: "Header (setAuthHeader c req) ''Accept'' = Header req ''Accept''"
  by (simp add: setAuthHeader_def Header_Set_def)

lemma setAuthHeader_Authorization:
  "Header (setAuthHeader c req) ''Authorization'' =
     (if user c = ''AWS'' \<and> password c \<noteq> [] then Some (''Basic '' @ password c)
      else if token c \<noteq> [] then Some (''Bearer '' @ token c)
      else Header req ''Authorization'')"
  by (simp add: setAuthHeader_def Header_Set_def)

lemma acceptManifests_value:
  "acceptManifests =
     ''application/vnd.docker.distribution.manifest.list.v2+json, application/vnd.oci.image.index.v1+json, application/vnd.docker.distribution.manifest.v2+json, application/vnd.oci.image.manifest.v1+json''"
  by (simp add: acceptManifests_def mediaTypeDockerSchema2ManifestList_def MediaTypeImageIndex_def
      mediaTypeDockerSchema2Manifest_def MediaTypeImageManifest_def)

lemma fetchManifests_sent:
  "sent (snd (fetchManifests env s method tag)) = sent s \<or>
   sent (snd (fetchManifests env s method tag)) = sent s @ [manifestsRequest (handle s) method tag]"
  by (simp add: fetchManifests_eq split: sum.splits)

lemma getAvailability_eq: "getAvailability env s tag = fetchManifests env s MethodHead tag"
  by (simp add: getAvailability_def split: prod.splits sum.splits)

lemma getImageConfig_eq:
  "getImageConfig env s digest =
     (case url_Parse env (URL (blobRequest (handle s) digest)) of
        Inl err \<Rightarrow> (Inl nil_dereference, s)
      | Inr _ \<Rightarrow>
          (case client_Do env (sent s) (blobRequest (handle s) digest) of
             Inl err \<Rightarrow> Inl err
           | Inr resp \<Rightarrow> if StatusCode resp \<noteq> StatusOK then Inl (errors_New (Status resp))
                          else Inr (Body resp),
           s\<lparr>sent := sent s @ [blobRequest (handle s) digest]\<rparr>))"
  by (simp add: getImageConfig_def NewRequest_def Do_def blobRequest_def setAuthHeader_URL
      Header_Set_def Let_def split: sum.splits)

lemma getImageConfig_sent:
  "sent (snd (getImageConfig env s digest)) = sent s \<or>
   sent (snd (getImageConfig env s digest)) = sent s @ [blobRequest (handle s) digest]"
  by (simp add: getImageConfig_eq split: sum.splits)

lemma getManifests_eq:
  "getManifests env s tag =
     (case fetchManifests env s MethodGet tag of
        (Inl err, s1) \<Rightarrow> (Inl err, s1)
      | (Inr resp, s1) \<Rightarrow>
          (if StatusCode resp \<noteq> StatusOK then Inl (errors_New (Status resp))
           else Inr (parseContentType (Header_Get (RespHeader resp) ''Content-Type''), Body resp),
           s1))"
  by (simp add: getManifests_def split: prod.splits sum.splits)

lemma getManifests_sent:
  "sent (snd (getManifests env s tag)) = sent (snd (fetchManifests env s MethodGet tag))"
  by (simp add: getManifests_def split: prod.splits sum.splits)

lemma login_eq:
  "login env s endpoint service scope =
     (case url_Parse env endpoint of
        Inl err \<Rightarrow> (Some err, s)
      | Inr u \<Rightarrow>
          (case url_Parse env (URL (loginRequest env (handle s) u service scope)) of
             Inl err \<Rightarrow> (Some err, s)
           | Inr _ \<Rightarrow>
               (case client_Do env (sent s) (loginRequest env (handle s) u service scope) of
                  Inl err \<Rightarrow>
                    (Some err, s\<lparr>sent := sent s @ [loginRequest env (handle s) u service scope]\<rparr>)
                | Inr resp \<Rightarrow>
                    if StatusCode resp \<noteq> StatusOK
                    then (Some (errors_New (''login failed '' @ Status resp)),
                          s\<lparr>sent := sent s @ [loginRequest env (handle s) u service scope]\<rparr>)
                    else (case decode_Token env (Body resp) of
                            Inl err \<Rightarrow>
                              (Some err,
                               s\<lparr>sent := sent s @ [loginRequest env (handle s) u service scope]\<rparr>)
                          | Inr tok \<Rightarrow>
                              if tok = []
                              then (Some (errors_New ''response does not contains token''),
                                    s\<lparr>sent := sent s @ [loginRequest env (handle s) u service scope]\<rparr>)
                              else (None,
                                    s\<lparr>sent := sent s @ [loginRequest env (handle s) u service scope],
                                      handle := (handle s)\<lparr>token := tok\<rparr>\<rparr>)))))"
  by (simp add: login_def NewRequest_def Do_def loginRequest_def SetBasicAuth_def Header_Set_def
      Let_def split: sum.splits)

lemma loop_transport_error:
  "getAvailability env s tag = (Inl err, s1) \<Longrightarrow>
     HasImage_loop env (Suc n) s tag = ((False, Some err), s1)"
  by simp

lemma loop_ok:
  "getAvailability env s tag = (Inr resp, s1) \<Longrightarrow> StatusCode resp = StatusOK \<Longrightarrow>
     HasImage_loop env (Suc n) s tag = ((True, None), s1)"
  by (simp add: StatusOK_def StatusUnauthorized_def)

lemma loop_other_status:
  "getAvailability env s tag = (Inr resp, s1) \<Longrightarrow> StatusCode resp \<noteq> StatusOK \<Longrightarrow>
   StatusCode resp \<noteq> StatusUnauthorized \<Longrightarrow>
     HasImage_loop env (Suc n) s tag = ((False, Some (errors_New (Status resp))), s1)"
  by simp

lemma loop_unauthorized:
  "getAvailability env s tag = (Inr resp, s1) \<Longrightarrow> StatusCode resp = StatusUnauthorized \<Longrightarrow>
     HasImage_loop env (Suc n) s tag =
       (case reauth env s1 resp of
          (Some err, s2) \<Rightarrow> ((False, Some err), s2)
        | (None, s2) \<Rightarrow> HasImage_loop env n s2 tag)"
  by (simp add: reauth_def Let_def split: prod.splits option.splits)

declare HasImage_loop.simps(2) [simp del]

lemma loop_never_false_nil: "fst (HasImage_loop env n s tag) \<noteq> (False, None)"
proof (induction n arbitrary: s)
  case 0
  show ?case by simp
next
  case (Suc n)
  obtain r s1 where p: "getAvailability env s tag = (r, s1)"
    by (cases "getAvailability env s tag")
  show ?case
  proof (cases r)
    case (Inl err)
    with p show ?thesis by (simp add: loop_transport_error)
  next
    case (Inr resp)
    note r = this
    show ?thesis
    proof (cases "StatusCode resp = StatusUnauthorized")
      case False
      with p r show ?thesis
        by (cases "StatusCode resp = StatusOK") (simp_all add: loop_ok loop_other_status)
    next
      case True
      obtain eo s2 where ra: "reauth env s1 resp = (eo, s2)"
        by (cases "reauth env s1 resp")
      show ?thesis
      proof (cases eo)
        case None
        with p r True ra Suc.IH [of s2] show ?thesis by (simp add: loop_unauthorized)
      next
        case (Some err)
        with p r True ra show ?thesis by (simp add: loop_unauthorized)
      qed
    qed
  qed
qed

section \<open>Facts about the example registries\<close>

lemma example_handle:
  "New ''registry.example.com/team/app'' [] [] =
     \<lparr>host = ''registry.example.com'', repo = ''team/app'', user = [], password = [], token = []\<rparr>"
  by (simp add: New_def SplitN2_def HasPrefix_def Contains_def)

lemma ecr_handle:
  "New ''123456789012.dkr.ecr.us-east-1.amazonaws.com/app'' ''AWS'' pw =
     \<lparr>host = ''123456789012.dkr.ecr.us-east-1.amazonaws.com'', repo = ''app'', user = ''AWS'',
      password = pw, token = []\<rparr>"
  by (simp add: New_def SplitN2_def HasPrefix_def Contains_def)

section \<open>Content negotiation\<close>

text \<open>
  C8 (as the code has it). Every manifest request, the HEAD probe of \<open>getAvailability\<close> and
  the GET of \<open>getManifests\<close> alike (both go through \<open>fetchManifests\<close>), carries an
  \<open>Accept\<close> header listing, in this order: the Docker manifest-list media type, the OCI
  image-index media type, the Docker schema-2 manifest media type and the OCI
  image-manifest media type.
\<close>

theorem manifest_requests_Accept:
  "(sent (snd (fetchManifests env s method tag)) = sent s @ [req] \<longrightarrow>
      Method req = method \<and>
      Header req ''Accept'' =
        Some (Join [mediaTypeDockerSchema2ManifestList, MediaTypeImageIndex,
                    mediaTypeDockerSchema2Manifest, MediaTypeImageManifest] '', '')) \<and>
   (sent (snd (getAvailability env s tag)) = sent s @ [req] \<longrightarrow>
      Method req = MethodHead \<and>
      Header req ''Accept'' =
        Some (Join [mediaTypeDockerSchema2ManifestList, MediaTypeImageIndex,
                    mediaTypeDockerSchema2Manifest, MediaTypeImageManifest] '', '')) \<and>
   (sent (snd (getManifests env s tag)) = sent s @ [req] \<longrightarrow>
      Method req = MethodGet \<and>
      Header req ''Accept'' =
        Some (Join [mediaTypeDockerSchema2ManifestList, MediaTypeImageIndex,
                    mediaTypeDockerSchema2Manifest, MediaTypeImageManifest] '', ''))"
proof -
  have sent_one: "Method req = m \<and> Header req ''Accept'' = Some acceptManifests"
    if "sent (snd (fetchManifests env s m tag)) = sent s @ [req]" for m
    using that fetchManifests_sent [of env s m tag]
    by (auto simp: manifestsRequest_def setAuthHeader_Method setAuthHeader_Accept)
  show ?thesis
    using sent_one [of "method"] sent_one [of MethodHead] sent_one [of MethodGet]
    by (simp add: getAvailability_eq getManifests_sent acceptManifests_def)
qed

theorem manifest_requests_Accept_witness:
  "sent (snd (getAvailability (example_env registry_index) example_world ''latest'')) =
     sent example_world @ [manifestsRequest (handle example_world) MethodHead ''latest''] \<and>
   sent (snd (getManifests (example_env registry_index) example_world ''latest'')) =
     sent example_world @ [manifestsRequest (handle example_world) MethodGet ''latest''] \<and>
   Header (manifestsRequest (handle example_world) MethodHead ''latest'') ''Accept'' =
     Some ''application/vnd.docker.distribution.manifest.list.v2+json, application/vnd.oci.image.index.v1+json, application/vnd.docker.distribution.manifest.v2+json, application/vnd.oci.image.manifest.v1+json'' \<and>
   Header (manifestsRequest (handle example_world) MethodGet ''latest'') ''Accept'' =
     Some ''application/vnd.docker.distribution.manifest.list.v2+json, application/vnd.oci.image.index.v1+json, application/vnd.docker.distribution.manifest.v2+json, application/vnd.oci.image.manifest.v1+json'' \<and>
   Method (manifestsRequest (handle example_world) MethodHead ''latest'') = ''HEAD'' \<and>
   Method (manifestsRequest (handle example_world) MethodGet ''latest'') = ''GET''"
proof -
  have f: "sent (snd (fetchManifests (example_env registry_index) example_world m ''latest'')) =
        sent example_world @ [manifestsRequest (handle example_world) m ''latest'']" for m
    by (simp add: fetchManifests_eq example_env_def)
  have a: "sent (snd (getAvailability (example_env registry_index) example_world ''latest'')) =
        sent example_world @ [manifestsRequest (handle example_world) MethodHead ''latest'']"
    by (simp add: getAvailability_eq f)
  have g: "sent (snd (getManifests (example_env registry_index) example_world ''latest'')) =
        sent example_world @ [manifestsRequest (handle example_world) MethodGet ''latest'']"
    by (simp add: getManifests_sent f)
  show ?thesis
    using a g
      manifest_requests_Accept [of "example_env registry_index" example_world MethodHead
        "''latest''" "manifestsRequest (handle example_world) MethodHead ''latest''"]
      manifest_requests_Accept [of "example_env registry_index" example_world MethodGet
        "''latest''" "manifestsRequest (handle example_world) MethodGet ''latest''"]
    by (simp add: mediaTypeDockerSchema2ManifestList_def MediaTypeImageIndex_def
        mediaTypeDockerSchema2Manifest_def MediaTypeImageManifest_def MethodHead_def MethodGet_def)
qed

text \<open>
  The order of the claim (OCI image index, Docker manifest list, OCI image manifest, Docker
  schema-2 manifest) is not the order on the wire.
\<close>

theorem Accept_order_counterexample:
  "map (\<lambda>r. Header r ''Accept'')
     (sent (snd (getAvailability (example_env registry_index) example_world ''latest''))) \<noteq>
   [Some (Join [MediaTypeImageIndex, mediaTypeDockerSchema2ManifestList,
                MediaTypeImageManifest, mediaTypeDockerSchema2Manifest] '', '')] \<and>
   map (\<lambda>r. Header r ''Accept'')
     (sent (snd (getManifests (example_env registry_index) example_world ''latest''))) \<noteq>
   [Some (Join [MediaTypeImageIndex, mediaTypeDockerSchema2ManifestList,
                MediaTypeImageManifest, mediaTypeDockerSchema2Manifest] '', '')]"
  by (simp add: getAvailability_eq getManifests_sent fetchManifests_eq example_env_def
      example_world_def manifestsRequest_def setAuthHeader_Accept acceptManifests_def
      mediaTypeDockerSchema2ManifestList_def MediaTypeImageIndex_def
      mediaTypeDockerSchema2Manifest_def MediaTypeImageManifest_def)

section \<open>The static-credential case\<close>

lemma fetchManifests_sent_Authorization:
  "sent (snd (fetchManifests env s method tag)) = sent s @ [req] \<Longrightarrow>
     Header req ''Authorization'' =
       (if user (handle s) = ''AWS'' \<and> password (handle s) \<noteq> []
        then Some (''Basic '' @ password (handle s))
        else if token (handle s) \<noteq> [] then Some (''Bearer '' @ token (handle s))
        else None)"
  using fetchManifests_sent [of env s "method" tag]
  by (auto simp: manifestsRequest_def setAuthHeader_Authorization)

lemma getImageConfig_sent_Authorization:
  "sent (snd (getImageConfig env s digest)) = sent s @ [req] \<Longrightarrow>
     Header req ''Authorization'' =
       (if user (handle s) = ''AWS'' \<and> password (handle s) \<noteq> []
        then Some (''Basic '' @ password (handle s))
        else if token (handle s) \<noteq> [] then Some (''Bearer '' @ token (handle s))
        else None)"
  using getImageConfig_sent [of env s digest]
  by (auto simp: blobRequest_def setAuthHeader_Authorization)

text \<open>
  C10. With the user name \<open>AWS\<close> and an empty password, \<open>setAuthHeader\<close> sets no Basic
  header: it sets the Bearer header of the cached token when there is one and otherwise
  leaves the header as it is. With the user name \<open>AWS\<close> and a non-empty password it sets
  \<open>Basic\<close> followed by the password, whatever the cached token. The same holds of the
  requests that reach the registry: the manifest requests of \<open>fetchManifests\<close> and the blob
  request of \<open>getImageConfig\<close>, which start from an empty header.
\<close>

theorem AWS_sentinel_Authorization:
  "(user c = ''AWS'' \<and> password c = [] \<longrightarrow>
      Header (setAuthHeader c req) ''Authorization'' =
        (if token c \<noteq> [] then Some (''Bearer '' @ token c) else Header req ''Authorization'')) \<and>
   (user c = ''AWS'' \<and> password c \<noteq> [] \<longrightarrow>
      Header (setAuthHeader c req) ''Authorization'' = Some (''Basic '' @ password c)) \<and>
   (user (handle s) = ''AWS'' \<and> password (handle s) = [] \<and>
    (sent (snd (fetchManifests env s method tag)) = sent s @ [sent_req] \<or>
     sent (snd (getImageConfig env s digest)) = sent s @ [sent_req]) \<longrightarrow>
      Header sent_req ''Authorization'' =
        (if token (handle s) \<noteq> [] then Some (''Bearer '' @ token (handle s)) else None)) \<and>
   (user (handle s) = ''AWS'' \<and> password (handle s) \<noteq> [] \<and>
    (sent (snd (fetchManifests env s method tag)) = sent s @ [sent_req] \<or>
     sent (snd (getImageConfig env s digest)) = sent s @ [sent_req]) \<longrightarrow>
      Header sent_req ''Authorization'' = Some (''Basic '' @ password (handle s)))"
proof (intro conjI impI)
  assume "user c = ''AWS'' \<and> password c = []"
  then show "Header (setAuthHeader c req) ''Authorization'' =
      (if token c \<noteq> [] then Some (''Bearer '' @ token c) else Header req ''Authorization'')"
    by (simp add: setAuthHeader_Authorization)
next
  assume "user c = ''AWS'' \<and> password c \<noteq> []"
  then show "Header (setAuthHeader c req) ''Authorization'' = Some (''Basic '' @ password c)"
    by (simp add: setAuthHeader_Authorization)
next
  assume a: "user (handle s) = ''AWS'' \<and> password (handle s) = [] \<and>
    (sent (snd (fetchManifests env s method tag)) = sent s @ [sent_req] \<or>
     sent (snd (getImageConfig env s digest)) = sent s @ [sent_req])"
  then show "Header sent_req ''Authorization'' =
      (if token (handle s) \<noteq> [] then Some (''Bearer '' @ token (handle s)) else None)"
    using fetchManifests_sent_Authorization [of env s "method" tag sent_req]
      getImageConfig_sent_Authorization [of env s digest sent_req]
    by auto
next
  assume a: "user (handle s) = ''AWS'' \<and> password (handle s) \<noteq> [] \<and>
    (sent (snd (fetchManifests env s method tag)) = sent s @ [sent_req] \<or>
     sent (snd (getImageConfig env s digest)) = sent s @ [sent_req])"
  then show "Header sent_req ''Authorization'' = Some (''Basic '' @ password (handle s))"
    using fetchManifests_sent_Authorization [of env s "method" tag sent_req]
      getImageConfig_sent_Authorization [of env s digest sent_req]
    by auto
qed

lemma ecr_world_handle:
  "handle (ecr_world pw tok) =
     \<lparr>host = ''123456789012.dkr.ecr.us-east-1.amazonaws.com'', repo = ''app'', user = ''AWS'',
      password = pw, token = tok\<rparr>"
  by (simp add: ecr_world_def ecr_handle)

theorem AWS_sentinel_Authorization_witness:
  "map (\<lambda>r. Header r ''Authorization'')
     (sent (snd (fetchManifests (example_env registry_index) (ecr_world [] ''cached'')
        MethodGet ''latest''))) = [Some ''Bearer cached''] \<and>
   map (\<lambda>r. Header r ''Authorization'')
     (sent (snd (fetchManifests (example_env registry_index) (ecr_world [] [])
        MethodGet ''latest''))) = [None] \<and>
   map (\<lambda>r. Header r ''Authorization'')
     (sent (snd (getImageConfig (example_env registry_index) (ecr_world ''QVdTOnNlY3JldA=='' ''cached'')
        ''sha256:04''))) = [Some ''Basic QVdTOnNlY3JldA==''] \<and>
   Header (setAuthHeader (handle (ecr_world [] ''cached''))
             \<lparr>Method = MethodGet, URL = ''https://example.com/'', Header = Map.empty\<rparr>)
     ''Authorization'' = Some ''Bearer cached'' \<and>
   Header (setAuthHeader (handle (ecr_world ''QVdTOnNlY3JldA=='' ''cached''))
             \<lparr>Method = MethodGet, URL = ''https://example.com/'', Header = Map.empty\<rparr>)
     ''Authorization'' = Some ''Basic QVdTOnNlY3JldA==''"
proof -
  let ?E = "example_env registry_index"
  let ?r0 = "\<lparr>Method = MethodGet, URL = ''https://example.com/'', Header = Map.empty\<rparr>"
  have f: "sent (snd (fetchManifests ?E (ecr_world pw tok) MethodGet ''latest'')) =
      sent (ecr_world pw tok) @ [manifestsRequest (handle (ecr_world pw tok)) MethodGet ''latest'']"
    for pw tok
    by (simp add: fetchManifests_eq example_env_def)
  have g: "sent (snd (getImageConfig ?E (ecr_world pw tok) ''sha256:04'')) =
      sent (ecr_world pw tok) @ [blobRequest (handle (ecr_world pw tok)) ''sha256:04'']"
    for pw tok
    by (simp add: getImageConfig_eq example_env_def)
  have e: "sent (ecr_world pw tok) = []" for pw tok
    by (simp add: ecr_world_def)
  show ?thesis
    using
      AWS_sentinel_Authorization [of "handle (ecr_world [] ''cached'')" ?r0
        "ecr_world [] ''cached''" ?E MethodGet "''latest''"
        "manifestsRequest (handle (ecr_world [] ''cached'')) MethodGet ''latest''" "''sha256:04''"]
      AWS_sentinel_Authorization [of "handle (ecr_world ''QVdTOnNlY3JldA=='' ''cached'')" ?r0
        "ecr_world ''QVdTOnNlY3JldA=='' ''cached''" ?E MethodGet "''latest''"
        "blobRequest (handle (ecr_world ''QVdTOnNlY3JldA=='' ''cached'')) ''sha256:04''" "''sha256:04''"]
      AWS_sentinel_Authorization [of "handle (ecr_world [] [])" ?r0
        "ecr_world [] []" ?E MethodGet "''latest''"
        "manifestsRequest (handle (ecr_world [] [])) MethodGet ''latest''" "''sha256:04''"]
    by (simp add: f g e ecr_world_handle)
qed

section \<open>Facts about the token exchange\<close>

lemma login_sent:
  "sent (snd (login env s endpoint service scope)) = sent s @ [req] \<Longrightarrow>
     \<exists>u. url_Parse env endpoint = Inr u \<and> req = loginRequest env (handle s) u service scope \<and>
         (\<exists>x. url_Parse env (URL req) = Inr x)"
  by (auto simp: login_eq split: sum.splits if_splits)

lemma login_after_parse:
  "url_Parse env endpoint = Inr u \<Longrightarrow>
   url_Parse env (URL (loginRequest env (handle s) u service scope)) = Inr x \<Longrightarrow>
   client_Do env (sent s) (loginRequest env (handle s) u service scope) = Inr resp \<Longrightarrow>
     login env s endpoint service scope =
       (if StatusCode resp \<noteq> StatusOK
        then (Some (errors_New (''login failed '' @ Status resp)),
              s\<lparr>sent := sent s @ [loginRequest env (handle s) u service scope]\<rparr>)
        else (case decode_Token env (Body resp) of
                Inl err \<Rightarrow>
                  (Some err, s\<lparr>sent := sent s @ [loginRequest env (handle s) u service scope]\<rparr>)
              | Inr tok \<Rightarrow>
                  if tok = []
                  then (Some (errors_New ''response does not contains token''),
                        s\<lparr>sent := sent s @ [loginRequest env (handle s) u service scope]\<rparr>)
                  else (None,
                        s\<lparr>sent := sent s @ [loginRequest env (handle s) u service scope],
                          handle := (handle s)\<lparr>token := tok\<rparr>\<rparr>)))"
  by (simp add: login_eq)

lemma login_error_keeps_handle:
  "fst (login env s endpoint service scope) \<noteq> None \<Longrightarrow>
     handle (snd (login env s endpoint service scope)) = handle s"
  by (auto simp: login_eq split: sum.splits if_splits)

lemma login_success:
  "fst (login env s endpoint service scope) = None \<Longrightarrow>
     \<exists>req resp tok.
       sent (snd (login env s endpoint service scope)) = sent s @ [req] \<and>
       client_Do env (sent s) req = Inr resp \<and> StatusCode resp = StatusOK \<and>
       decode_Token env (Body resp) = Inr tok \<and> tok \<noteq> [] \<and>
       handle (snd (login env s endpoint service scope)) = (handle s)\<lparr>token := tok\<rparr>"
  by (auto simp: login_eq split: sum.splits if_splits)

section \<open>The token exchange\<close>

text \<open>
  C9. When the request of \<open>login\<close> is answered with a status other than 200, \<open>login\<close>
  returns the error \<open>login failed\<close> followed by the status text. When it is answered with
  200 and the \<open>Token\<close> field decodes to the empty string (as it does when the field is
  missing), \<open>login\<close> returns the error \<open>response does not contains token\<close>. Whenever \<open>login\<close>
  returns an error the handle, token included, is as it was; when it returns nil the
  handle's token is the decoded token, which is not empty.
\<close>

theorem login_token_exchange:
  "(sent (snd (login env s endpoint service scope)) = sent s @ [req] \<and>
    client_Do env (sent s) req = Inr resp \<and> StatusCode resp \<noteq> StatusOK \<longrightarrow>
      fst (login env s endpoint service scope) =
        Some (errors_New (''login failed '' @ Status resp)) \<and>
      handle (snd (login env s endpoint service scope)) = handle s) \<and>
   (sent (snd (login env s endpoint service scope)) = sent s @ [req] \<and>
    client_Do env (sent s) req = Inr resp \<and> StatusCode resp = StatusOK \<and>
    decode_Token env (Body resp) = Inr [] \<longrightarrow>
      fst (login env s endpoint service scope) =
        Some (errors_New ''response does not contains token'') \<and>
      handle (snd (login env s endpoint service scope)) = handle s) \<and>
   (fst (login env s endpoint service scope) \<noteq> None \<longrightarrow>
      handle (snd (login env s endpoint service scope)) = handle s) \<and>
   (fst (login env s endpoint service scope) = None \<longrightarrow>
      token (handle (snd (login env s endpoint service scope))) \<noteq> [] \<and>
      (\<exists>rq rs. sent (snd (login env s endpoint service scope)) = sent s @ [rq] \<and>
         client_Do env (sent s) rq = Inr rs \<and> StatusCode rs = StatusOK \<and>
         decode_Token env (Body rs) =
           Inr (token (handle (snd (login env s endpoint service scope)))) \<and>
         handle (snd (login env s endpoint service scope)) =
           (handle s)\<lparr>token := token (handle (snd (login env s endpoint service scope)))\<rparr>))"
proof (intro conjI impI)
  assume a: "sent (snd (login env s endpoint service scope)) = sent s @ [req] \<and>
    client_Do env (sent s) req = Inr resp \<and> StatusCode resp \<noteq> StatusOK"
  then obtain u x where "url_Parse env endpoint = Inr u"
    and "req = loginRequest env (handle s) u service scope"
    and "url_Parse env (URL req) = Inr x"
    using login_sent [of env s endpoint service scope req] by blast
  with a have l: "login env s endpoint service scope =
      (Some (errors_New (''login failed '' @ Status resp)), s\<lparr>sent := sent s @ [req]\<rparr>)"
    using login_after_parse [of env endpoint u s service scope x resp] by simp
  show "fst (login env s endpoint service scope) =
      Some (errors_New (''login failed '' @ Status resp))"
    by (simp add: l)
  show "handle (snd (login env s endpoint service scope)) = handle s"
    by (simp add: l)
next
  assume a: "sent (snd (login env s endpoint service scope)) = sent s @ [req] \<and>
    client_Do env (sent s) req = Inr resp \<and> StatusCode resp = StatusOK \<and>
    decode_Token env (Body resp) = Inr []"
  then obtain u x where "url_Parse env endpoint = Inr u"
    and "req = loginRequest env (handle s) u service scope"
    and "url_Parse env (URL req) = Inr x"
    using login_sent [of env s endpoint service scope req] by blast
  with a have l: "login env s endpoint service scope =
      (Some (errors_New ''response does not contains token''), s\<lparr>sent := sent s @ [req]\<rparr>)"
    using login_after_parse [of env endpoint u s service scope x resp] by simp
  show "fst (login env s endpoint service scope) =
      Some (errors_New ''response does not contains token'')"
    by (simp add: l)
  show "handle (snd (login env s endpoint service scope)) = handle s"
    by (simp add: l)
next
  assume "fst (login env s endpoint service scope) \<noteq> None"
  then show "handle (snd (login env s endpoint service scope)) = handle s"
    by (rule login_error_keeps_handle)
next
  assume a: "fst (login env s endpoint service scope) = None"
  then obtain rq rs tok where
    ok: "sent (snd (login env s endpoint service scope)) = sent s @ [rq]"
      "client_Do env (sent s) rq = Inr rs" "StatusCode rs = StatusOK"
      "decode_Token env (Body rs) = Inr tok" "tok \<noteq> []"
      "handle (snd (login env s endpoint service scope)) = (handle s)\<lparr>token := tok\<rparr>"
    using login_success [of env s endpoint service scope] by blast
  then have t: "token (handle (snd (login env s endpoint service scope))) = tok"
    by simp
  show "token (handle (snd (login env s endpoint service scope))) \<noteq> []"
    using ok t by simp
  show "\<exists>rq rs. sent (snd (login env s endpoint service scope)) = sent s @ [rq] \<and>
         client_Do env (sent s) rq = Inr rs \<and> StatusCode rs = StatusOK \<and>
         decode_Token env (Body rs) =
           Inr (token (handle (snd (login env s endpoint service scope)))) \<and>
         handle (snd (login env s endpoint service scope)) =
           (handle s)\<lparr>token := token (handle (snd (login env s endpoint service scope)))\<rparr>"
    using ok t by auto
qed

theorem login_token_exchange_witness:
  "fst (login (example_env auth_unavailable) example_world ''https://auth.example.com/token''
          ''registry.example.com'' ''repository:team/app:pull'') =
     Some (errors_New ''login failed 503 Service Unavailable'') \<and>
   handle (snd (login (example_env auth_unavailable) example_world
          ''https://auth.example.com/token'' ''registry.example.com''
          ''repository:team/app:pull'')) = handle example_world \<and>
   fst (login (example_env auth_without_token) example_world ''https://auth.example.com/token''
          ''registry.example.com'' ''repository:team/app:pull'') =
     Some (errors_New ''response does not contains token'') \<and>
   handle (snd (login (example_env auth_without_token) example_world
          ''https://auth.example.com/token'' ''registry.example.com''
          ''repository:team/app:pull'')) = handle example_world \<and>
   fst (login (example_env auth_issuing) example_world ''https://auth.example.com/token''
          ''registry.example.com'' ''repository:team/app:pull'') = None \<and>
   token (handle (snd (login (example_env auth_issuing) example_world
          ''https://auth.example.com/token'' ''registry.example.com''
          ''repository:team/app:pull''))) \<noteq> []"
proof -
  let ?ep = "''https://auth.example.com/token''"
  let ?sv = "''registry.example.com''"
  let ?sc = "''repository:team/app:pull''"
  let ?rq = "\<lambda>server. loginRequest (example_env server) (handle example_world) ?ep ?sv ?sc"
  have sent: "sent (snd (login (example_env server) example_world ?ep ?sv ?sc)) =
      sent example_world @ [?rq server]" for server
    by (simp add: login_eq example_env_def split: sum.splits)
  have down: "client_Do (example_env auth_unavailable) (sent example_world) (?rq auth_unavailable) =
      Inr \<lparr>StatusCode = 503, Status = ''503 Service Unavailable'', RespHeader = Map.empty,
            Body = []\<rparr>"
    by (simp add: example_env_def auth_unavailable_def reply_def)
  have empty: "client_Do (example_env auth_without_token) (sent example_world)
      (?rq auth_without_token) =
      Inr \<lparr>StatusCode = 200, Status = ''200 OK'', RespHeader = Map.empty, Body = ''{}''\<rparr>"
    by (simp add: example_env_def auth_without_token_def reply_def)
  have dec: "decode_Token (example_env auth_without_token) ''{}'' = Inr []"
    by (simp add: example_env_def)
  have issued: "fst (login (example_env auth_issuing) example_world ?ep ?sv ?sc) = None"
    by (simp add: login_eq example_env_def auth_issuing_def reply_def StatusOK_def)
  show ?thesis
    using
      login_token_exchange [of "example_env auth_unavailable" example_world ?ep ?sv ?sc
        "?rq auth_unavailable"
        "\<lparr>StatusCode = 503, Status = ''503 Service Unavailable'', RespHeader = Map.empty,
          Body = []\<rparr>"]
      login_token_exchange [of "example_env auth_without_token" example_world ?ep ?sv ?sc
        "?rq auth_without_token"
        "\<lparr>StatusCode = 200, Status = ''200 OK'', RespHeader = Map.empty, Body = ''{}''\<rparr>"]
      login_token_exchange [of "example_env auth_issuing" example_world ?ep ?sv ?sc]
    by (simp add: sent down empty dec issued StatusOK_def)
qed

section \<open>Facts about platform resolution\<close>

lemma getManifests_ok:
  "fetchManifests env s MethodGet tag = (Inr resp, s1) \<Longrightarrow> StatusCode resp = StatusOK \<Longrightarrow>
     getManifests env s tag =
       (Inr (parseContentType (Header_Get (RespHeader resp) ''Content-Type''), Body resp), s1)"
  by (simp add: getManifests_def)

lemma rangeManifests_no_platform:
  "Platform desc = None \<Longrightarrow> rangeManifests arch os (before @ desc # after)"
  by (induction before) (auto split: option.splits)

section \<open>Manifest lists\<close>

text \<open>
  C5. When the manifest GET is answered with 200 and the media type of an OCI image index
  or a Docker manifest list, and the decoded list holds a descriptor with no platform
  annotation, \<open>HasPlatformImage\<close> returns nil for every requested \<open>arch\<close> and \<open>os\<close>, whatever
  descriptors stand before it (the loop returns at one of them or reaches it) and after it
  (the loop never reads them), and without a further request.
\<close>

theorem index_descriptor_without_platform:
  "fetchManifests env s MethodGet tag = (Inr resp, s1) \<Longrightarrow>
   StatusCode resp = StatusOK \<Longrightarrow>
   parseContentType (Header_Get (RespHeader resp) ''Content-Type'') = MediaTypeImageIndex \<or>
   parseContentType (Header_Get (RespHeader resp) ''Content-Type'') =
     mediaTypeDockerSchema2ManifestList \<Longrightarrow>
   decode_Index env (Body resp) = Inr manifestList \<Longrightarrow>
   Manifests manifestList = before @ desc # after \<Longrightarrow>
   Platform desc = None \<Longrightarrow>
     HasPlatformImage env s tag arch os = (None, s1)"
proof -
  assume f: "fetchManifests env s MethodGet tag = (Inr resp, s1)"
    and ok: "StatusCode resp = StatusOK"
    and mt: "parseContentType (Header_Get (RespHeader resp) ''Content-Type'') =
        MediaTypeImageIndex \<or>
      parseContentType (Header_Get (RespHeader resp) ''Content-Type'') =
        mediaTypeDockerSchema2ManifestList"
    and dec: "decode_Index env (Body resp) = Inr manifestList"
    and ms: "Manifests manifestList = before @ desc # after"
    and np: "Platform desc = None"
  have g: "getManifests env s tag =
      (Inr (parseContentType (Header_Get (RespHeader resp) ''Content-Type''), Body resp), s1)"
    using f ok by (rule getManifests_ok)
  have r: "rangeManifests arch os (Manifests manifestList)"
    using np by (simp add: ms rangeManifests_no_platform)
  from mt show ?thesis
    by (auto simp: HasPlatformImage_def g dec r)
qed

theorem index_descriptor_without_platform_witness:
  "HasPlatformImage (example_env registry_index) example_world ''latest'' ''s390x'' ''plan9'' =
     (None, example_world\<lparr>sent := [manifestsRequest (handle example_world) MethodGet ''latest'']\<rparr>)"
proof -
  let ?E = "example_env registry_index"
  let ?resp = "\<lparr>StatusCode = 200, Status = ''200 OK'',
      RespHeader = [''Content-Type'' \<mapsto> mediaTypeDockerSchema2ManifestList], Body = ''index''\<rparr>"
  let ?d1 = "\<lparr>Digest = ''sha256:01'',
      Platform = Some \<lparr>Architecture = ''arm64'', OS = ''linux''\<rparr>\<rparr>"
  let ?d2 = "\<lparr>Digest = ''sha256:02'', Platform = None\<rparr>"
  let ?d3 = "\<lparr>Digest = ''sha256:03'',
      Platform = Some \<lparr>Architecture = ''amd64'', OS = ''linux''\<rparr>\<rparr>"
  have f: "fetchManifests ?E example_world MethodGet ''latest'' =
      (Inr ?resp,
       example_world\<lparr>sent := [manifestsRequest (handle example_world) MethodGet ''latest'']\<rparr>)"
    by (simp add: fetchManifests_eq example_env_def registry_index_def reply_def example_world_def)
  have ok: "StatusCode ?resp = StatusOK"
    by (simp add: StatusOK_def)
  have mt: "parseContentType (Header_Get (RespHeader ?resp) ''Content-Type'') = MediaTypeImageIndex \<or>
      parseContentType (Header_Get (RespHeader ?resp) ''Content-Type'') =
        mediaTypeDockerSchema2ManifestList"
    by (simp add: parseContentType_def Header_Get_def mediaTypeDockerSchema2ManifestList_def)
  have dec: "decode_Index ?E (Body ?resp) = Inr \<lparr>Manifests = [?d1, ?d2, ?d3]\<rparr>"
    by (simp add: example_env_def)
  have ms: "Manifests \<lparr>Manifests = [?d1, ?d2, ?d3]\<rparr> = [?d1] @ ?d2 # [?d3]"
    by simp
  have np: "Platform ?d2 = None"
    by simp
  show ?thesis
    by (rule index_descriptor_without_platform [OF f ok mt dec ms np])
qed

section \<open>Legacy manifests\<close>

text \<open>
  C6. When the manifest GET is answered with 200 and one of the two schema v1 media types
  (the signed \<open>prettyjws\<close> one or the plain JSON one), \<open>HasPlatformImage\<close> returns the
  sentinel \<open>ErrDeprecatedManifest\<close> for every requested \<open>arch\<close> and \<open>os\<close>: neither nil nor the
  error \<open>no image for arch/os\<close>. It decodes nothing and sends no further request.
\<close>

theorem legacy_manifest_is_deprecated:
  "fetchManifests env s MethodGet tag = (Inr resp, s1) \<Longrightarrow>
   StatusCode resp = StatusOK \<Longrightarrow>
   parseContentType (Header_Get (RespHeader resp) ''Content-Type'') =
     ''application/vnd.docker.distribution.manifest.v1+prettyjws'' \<or>
   parseContentType (Header_Get (RespHeader resp) ''Content-Type'') =
     ''application/vnd.docker.distribution.manifest.v1+json'' \<Longrightarrow>
     HasPlatformImage env s tag arch os = (Some ErrDeprecatedManifest, s1) \<and>
     fst (HasPlatformImage env s tag arch os) \<noteq> None \<and>
     fst (HasPlatformImage env s tag arch os) \<noteq>
       Some (errors_New (''no image for '' @ arch @ ''/'' @ os))"
proof -
  assume f: "fetchManifests env s MethodGet tag = (Inr resp, s1)"
    and ok: "StatusCode resp = StatusOK"
    and mt: "parseContentType (Header_Get (RespHeader resp) ''Content-Type'') =
        ''application/vnd.docker.distribution.manifest.v1+prettyjws'' \<or>
      parseContentType (Header_Get (RespHeader resp) ''Content-Type'') =
        ''application/vnd.docker.distribution.manifest.v1+json''"
  have g: "getManifests env s tag =
      (Inr (parseContentType (Header_Get (RespHeader resp) ''Content-Type''), Body resp), s1)"
    using f ok by (rule getManifests_ok)
  have "HasPlatformImage env s tag arch os = (Some ErrDeprecatedManifest, s1)"
    using mt
    by (auto simp: HasPlatformImage_def g MediaTypeImageIndex_def
        mediaTypeDockerSchema2ManifestList_def mediaTypeDockerSchema2Manifest_def
        MediaTypeImageManifest_def)
  then show ?thesis by simp
qed

theorem legacy_manifest_is_deprecated_witness:
  "HasPlatformImage (example_env registry_legacy) example_world ''latest'' ''amd64'' ''linux'' =
     (Some ErrDeprecatedManifest,
      example_world\<lparr>sent := [manifestsRequest (handle example_world) MethodGet ''latest'']\<rparr>)"
proof -
  let ?E = "example_env registry_legacy"
  let ?resp = "\<lparr>StatusCode = 200, Status = ''200 OK'',
      RespHeader = [''Content-Type'' \<mapsto>
        ''application/vnd.docker.distribution.manifest.v1+prettyjws; charset=utf-8''],
      Body = ''signed''\<rparr>"
  have f: "fetchManifests ?E example_world MethodGet ''latest'' =
      (Inr ?resp,
       example_world\<lparr>sent := [manifestsRequest (handle example_world) MethodGet ''latest'']\<rparr>)"
    by (simp add: fetchManifests_eq example_env_def registry_legacy_def reply_def example_world_def)
  have ok: "StatusCode ?resp = StatusOK"
    by (simp add: StatusOK_def)
  have mt: "parseContentType (Header_Get (RespHeader ?resp) ''Content-Type'') =
        ''application/vnd.docker.distribution.manifest.v1+prettyjws'' \<or>
      parseContentType (Header_Get (RespHeader ?resp) ''Content-Type'') =
        ''application/vnd.docker.distribution.manifest.v1+json''"
    by (simp add: parseContentType_def Header_Get_def)
  show ?thesis
    using legacy_manifest_is_deprecated [OF f ok mt, of "''amd64''" "''linux''"] by simp
qed

section \<open>Single manifests\<close>

lemma registry_single_manifest:
  "getManifests (example_env registry_single) example_world ''latest'' =
     (Inr (mediaTypeDockerSchema2Manifest, ''manifest''),
      example_world\<lparr>sent := [manifestsRequest (handle example_world) MethodGet ''latest'']\<rparr>)"
  by (simp add: getManifests_eq fetchManifests_eq example_env_def registry_single_def reply_def
      example_world_def example_handle manifestsRequest_def manifestsURL_def setAuthHeader_def
      HasPrefix_def StatusOK_def parseContentType_def Header_Get_def
      mediaTypeDockerSchema2Manifest_def)

lemma registry_single_config:
  "getImageConfig (example_env registry_single)
       (example_world\<lparr>sent := [manifestsRequest (handle example_world) MethodGet ''latest'']\<rparr>)
       ''sha256:04'' =
     (Inr ''{}'',
      example_world\<lparr>sent := [manifestsRequest (handle example_world) MethodGet ''latest'',
                              blobRequest (handle example_world) ''sha256:04'']\<rparr>)"
  by (simp add: getImageConfig_eq example_env_def registry_single_def reply_def
      example_world_def example_handle blobRequest_def setAuthHeader_def
      HasPrefix_def StatusOK_def)

text \<open>
  C1 fails on the code. The registry \<open>registry_single\<close> answers the manifest GET with a
  Docker schema-2 manifest whose config descriptor is annotated with the platform
  \<open>amd64\<close>/\<open>linux\<close>, and the blob GET with a configuration that names no architecture and
  no os. The source tests \<open>match(arch, p.OS) && match(os, p.Architecture)\<close>: asked for
  \<open>amd64\<close>/\<open>linux\<close> it compares \<open>amd64\<close> with \<open>linux\<close>, goes on to the configuration and
  returns \<open>no image for amd64/linux\<close>; asked for architecture \<open>linux\<close> and os \<open>amd64\<close> it
  returns nil at once.
\<close>

theorem single_manifest_platform_swapped:
  "decode_Manifest (example_env registry_single) ''manifest'' =
     Inr \<lparr>Config = \<lparr>Digest = ''sha256:04'',
                      Platform = Some \<lparr>Architecture = ''amd64'', OS = ''linux''\<rparr>\<rparr>\<rparr> \<and>
   HasPlatformImage (example_env registry_single) example_world ''latest'' ''amd64'' ''linux'' =
     (Some (errors_New ''no image for amd64/linux''),
      example_world\<lparr>sent := [manifestsRequest (handle example_world) MethodGet ''latest'',
                              blobRequest (handle example_world) ''sha256:04'']\<rparr>) \<and>
   HasPlatformImage (example_env registry_single) example_world ''latest'' ''linux'' ''amd64'' =
     (None,
      example_world\<lparr>sent := [manifestsRequest (handle example_world) MethodGet ''latest'']\<rparr>)"
proof -
  have d: "decode_Manifest (example_env registry_single) ''manifest'' =
     Inr \<lparr>Config = \<lparr>Digest = ''sha256:04'',
                      Platform = Some \<lparr>Architecture = ''amd64'', OS = ''linux''\<rparr>\<rparr>\<rparr>"
    by (simp add: example_env_def)
  have i: "decode_Image (example_env registry_single) ''{}'' =
     Inr \<lparr>image_Architecture = [], image_OS = []\<rparr>"
    by (simp add: example_env_def)
  have a: "HasPlatformImage (example_env registry_single) example_world ''latest'' ''amd64'' ''linux'' =
     (Some (errors_New ''no image for amd64/linux''),
      example_world\<lparr>sent := [manifestsRequest (handle example_world) MethodGet ''latest'',
                              blobRequest (handle example_world) ''sha256:04'']\<rparr>)"
    by (simp add: HasPlatformImage_def registry_single_manifest registry_single_config d i
        match_def mediaTypeDockerSchema2Manifest_def MediaTypeImageIndex_def
        mediaTypeDockerSchema2ManifestList_def)
  have b: "HasPlatformImage (example_env registry_single) example_world ''latest'' ''linux'' ''amd64'' =
     (None,
      example_world\<lparr>sent := [manifestsRequest (handle example_world) MethodGet ''latest'']\<rparr>)"
    by (simp add: HasPlatformImage_def registry_single_manifest d
        match_def mediaTypeDockerSchema2Manifest_def MediaTypeImageIndex_def
        mediaTypeDockerSchema2ManifestList_def)
  from d a b show ?thesis by simp
qed

section \<open>Facts about the existence check\<close>

lemma loop_step:
  "HasImage_loop env (Suc n) s tag =
     (case getAvailability env s tag of
        (Inl err, s1) \<Rightarrow> ((False, Some err), s1)
      | (Inr resp, s1) \<Rightarrow>
          if StatusCode resp = StatusUnauthorized
          then (case reauth env s1 resp of
                  (Some err, s2) \<Rightarrow> ((False, Some err), s2)
                | (None, s2) \<Rightarrow> HasImage_loop env n s2 tag)
          else if StatusCode resp = StatusOK then ((True, None), s1)
          else ((False, Some (errors_New (Status resp))), s1))"
  by (simp add: HasImage_loop.simps reauth_def Let_def split: prod.splits sum.splits option.splits)

lemma codes_differ: "StatusOK \<noteq> StatusUnauthorized"
  by (simp add: StatusOK_def StatusUnauthorized_def)

lemma methods_differ: "MethodGet \<noteq> MethodHead"
  by (simp add: MethodGet_def MethodHead_def)

lemma last_try_true:
  "fst (HasImage_loop env (Suc 0) s tag) = (True, None) \<longleftrightarrow>
     (\<exists>resp s1. getAvailability env s tag = (Inr resp, s1) \<and> StatusCode resp = StatusOK)"
  using codes_differ
  by (auto simp: loop_step split: prod.splits sum.splits option.splits)

lemma last_try_unauthorized:
  "getAvailability env s tag = (Inr resp, s1) \<Longrightarrow> StatusCode resp = StatusUnauthorized \<Longrightarrow>
     HasImage_loop env (Suc 0) s tag =
       (case reauth env s1 resp of
          (Some err, s2) \<Rightarrow> ((False, Some err), s2)
        | (None, s2) \<Rightarrow> ((False, Some (errors_New ''aborted'')), s2))"
  by (simp add: loop_step split: prod.splits option.splits)

lemma reauth_without_Bearer:
  "\<not> HasPrefix (Header_Get (RespHeader resp) ''Www-Authenticate'') ''Bearer '' \<Longrightarrow>
     reauth env s1 resp = (None, s1)"
  by (simp add: reauth_def)

text \<open>What a probe and a re-authentication add to the requests sent.\<close>

lemma getAvailability_adds:
  "\<exists>new. sent (snd (getAvailability env s tag)) = sent s @ new \<and>
     count_method MethodGet new = 0 \<and> count_method MethodHead new = length new \<and>
     length new \<le> 1"
  using fetchManifests_sent [of env s MethodHead tag] methods_differ
  by (auto simp: getAvailability_eq count_method_def manifestsRequest_def setAuthHeader_Method)

lemma login_adds:
  "\<exists>new. sent (snd (login env s endpoint service scope)) = sent s @ new \<and>
     count_method MethodHead new = 0 \<and> count_method MethodGet new = length new \<and>
     length new \<le> 1"
proof (cases "sent (snd (login env s endpoint service scope)) = sent s")
  case True
  then show ?thesis by (simp add: count_method_def)
next
  case False
  then have "\<exists>u. sent (snd (login env s endpoint service scope)) =
      sent s @ [loginRequest env (handle s) u service scope]"
    by (auto simp: login_eq split: sum.splits if_splits)
  then show ?thesis
    using methods_differ by (auto simp: count_method_def loginRequest_def Let_def)
qed

lemma reauth_adds:
  "\<exists>new. sent (snd (reauth env s resp)) = sent s @ new \<and>
     count_method MethodHead new = 0 \<and> count_method MethodGet new = length new \<and>
     length new \<le> 1"
proof (cases "HasPrefix (Header_Get (RespHeader resp) ''Www-Authenticate'') ''Bearer ''")
  case False
  then show ?thesis by (simp add: reauth_without_Bearer count_method_def)
next
  case True
  obtain endpoint service scope where
    "parseAuthHeader (SplitN2 (Header_Get (RespHeader resp) ''Www-Authenticate'') '' '' ! 1) =
       (endpoint, service, scope)"
    by (metis prod_cases3)
  with True have "reauth env s resp = login env s endpoint service scope"
    by (simp add: reauth_def)
  then show ?thesis
    using login_adds [of env s endpoint service scope] by simp
qed

lemma count_method_append:
  "count_method m (xs @ ys) = count_method m xs + count_method m ys"
  by (simp add: count_method_def)

lemma loop_adds:
  "\<exists>new. sent (snd (HasImage_loop env n s tag)) = sent s @ new \<and>
     count_method MethodHead new \<le> n \<and>
     count_method MethodGet new \<le> count_method MethodHead new \<and>
     length new = count_method MethodHead new + count_method MethodGet new"
proof (induction n arbitrary: s)
  case 0
  show ?case by (simp add: count_method_def)
next
  case (Suc n)
  obtain r s1 where p: "getAvailability env s tag = (r, s1)"
    by (cases "getAvailability env s tag")
  obtain new1 where n1: "sent s1 = sent s @ new1" "count_method MethodGet new1 = 0"
      "count_method MethodHead new1 = length new1" "length new1 \<le> 1"
    using getAvailability_adds [of env s tag] p by auto
  have stop: ?case if "snd (HasImage_loop env (Suc n) s tag) = s1"
    using that n1 by auto
  show ?case
  proof (cases r)
    case (Inl err)
    with p show ?thesis by (intro stop) (simp add: loop_step)
  next
    case (Inr resp)
    note r = this
    show ?thesis
    proof (cases "StatusCode resp = StatusUnauthorized")
      case False
      with p r show ?thesis by (intro stop) (simp add: loop_step)
    next
      case True
      have sent1: "new1 = [manifestsRequest (handle s) MethodHead tag]"
        using p r n1(1) fetchManifests_eq [of env s MethodHead tag]
        by (auto simp: getAvailability_eq split: sum.splits)
      obtain eo s2 where ra: "reauth env s1 resp = (eo, s2)"
        by (cases "reauth env s1 resp")
      obtain new2 where n2: "sent s2 = sent s1 @ new2" "count_method MethodHead new2 = 0"
          "count_method MethodGet new2 = length new2" "length new2 \<le> 1"
        using reauth_adds [of env s1 resp] ra by auto
      have h1: "count_method MethodHead new1 = 1"
        using n1(3) by (simp add: sent1)
      show ?thesis
      proof (cases eo)
        case (Some err)
        with p r True ra have "snd (HasImage_loop env (Suc n) s tag) = s2"
          by (simp add: loop_step)
        then have "sent (snd (HasImage_loop env (Suc n) s tag)) = sent s @ (new1 @ new2)"
          using n1 n2 by simp
        moreover have "count_method MethodHead (new1 @ new2) \<le> Suc n"
          using h1 n2 by (simp add: count_method_append)
        moreover have "count_method MethodGet (new1 @ new2) \<le> count_method MethodHead (new1 @ new2)"
          using h1 n1 n2 by (simp add: count_method_append)
        moreover have "length (new1 @ new2) =
            count_method MethodHead (new1 @ new2) + count_method MethodGet (new1 @ new2)"
          using n1 n2 by (simp add: count_method_append)
        ultimately show ?thesis by blast
      next
        case None
        with p r True ra have l: "HasImage_loop env (Suc n) s tag = HasImage_loop env n s2 tag"
          by (simp add: loop_step)
        obtain new3 where n3: "sent (snd (HasImage_loop env n s2 tag)) = sent s2 @ new3"
            "count_method MethodHead new3 \<le> n"
            "count_method MethodGet new3 \<le> count_method MethodHead new3"
            "length new3 = count_method MethodHead new3 + count_method MethodGet new3"
          using Suc.IH [of s2] by auto
        have "sent (snd (HasImage_loop env (Suc n) s tag)) = sent s @ (new1 @ new2 @ new3)"
          using l n1 n2 n3 by simp
        moreover have "count_method MethodHead (new1 @ new2 @ new3) \<le> Suc n"
          using h1 n2 n3 by (simp add: count_method_append)
        moreover have "count_method MethodGet (new1 @ new2 @ new3) \<le>
            count_method MethodHead (new1 @ new2 @ new3)"
          using h1 n1 n2 n3 by (simp add: count_method_append)
        moreover have "length (new1 @ new2 @ new3) =
            count_method MethodHead (new1 @ new2 @ new3) +
            count_method MethodGet (new1 @ new2 @ new3)"
          using n1 n2 n3 by (simp add: count_method_append)
        ultimately show ?thesis by blast
      qed
    qed
  qed
qed

section \<open>Evaluating the existence check on the example registries\<close>

lemma example_challenge_parsed:
  "parseAuthHeader (SplitN2 example_challenge '' '' ! 1) =
     (''https://auth.example.com/token'', ''registry.example.com'', ''repository:team/app:pull'')"
  by (simp add: example_challenge_def quoted_def SplitN2_def HasPrefix_def parseAuthHeader_def
      matchPart_def isWordChar_def map_index_def Let_def)

lemma example_challenge_parsed':
  "parseAuthHeader (SplitN2 example_challenge '' '' ! Suc 0) =
     (''https://auth.example.com/token'', ''registry.example.com'', ''repository:team/app:pull'')"
  using example_challenge_parsed by simp

lemma example_challenge_Bearer: "HasPrefix example_challenge ''Bearer ''"
  by (simp add: example_challenge_def HasPrefix_def)

lemma example_probe:
  "handle s = (handle example_world)\<lparr>token := tok\<rparr> \<Longrightarrow>
     getAvailability (example_env server) s ''latest'' =
       (server (sent s) (probe_with tok), s\<lparr>sent := sent s @ [probe_with tok]\<rparr>)"
  by (simp add: getAvailability_eq fetchManifests_eq example_env_def probe_with_def)

lemma example_reauth:
  "handle s = (handle example_world)\<lparr>token := tok\<rparr> \<Longrightarrow>
   server (sent s) token_request = reply 200 ''200 OK'' Map.empty ''token'' \<Longrightarrow>
     reauth (example_env server) s
         \<lparr>StatusCode = 401, Status = ''401 Unauthorized'',
          RespHeader = [''Www-Authenticate'' \<mapsto> example_challenge], Body = []\<rparr> =
       (None, s\<lparr>sent := sent s @ [token_request],
                handle := (handle example_world)\<lparr>token := ''t0k3n''\<rparr>\<rparr>)"
  by (simp add: reauth_def Header_Get_def example_challenge_Bearer example_challenge_parsed'
      login_eq example_env_def loginRequest_def token_request_def example_world_def
      example_handle reply_def StatusOK_def)

lemma probe_with_facts:
  "Method (probe_with tok) = MethodHead"
  "Header (probe_with tok) ''Authorization'' = (if tok \<noteq> [] then Some (''Bearer '' @ tok) else None)"
  by (simp_all add: probe_with_def manifestsRequest_def setAuthHeader_Method
      setAuthHeader_Authorization example_world_def example_handle)

lemma example_world_token: "handle example_world = (handle example_world)\<lparr>token := []\<rparr>"
  by (simp add: example_world_def example_handle)

lemma example_world_sent: "sent example_world = []"
  by (simp add: example_world_def)

lemma example_reauth_challenge:
  "handle s = (handle example_world)\<lparr>token := tok\<rparr> \<Longrightarrow>
   server (sent s) token_request = reply 200 ''200 OK'' Map.empty ''token'' \<Longrightarrow>
     reauth (example_env server) s challenge_response =
       (None, s\<lparr>sent := sent s @ [token_request],
                handle := (handle example_world)\<lparr>token := ''t0k3n''\<rparr>\<rparr>)"
  using example_reauth [of s tok server] by (simp add: challenge_response_def)

lemma challenging_answers:
  "registry_challenging h (probe_with tok) = Inr challenge_response"
  "registry_challenging h token_request = reply 200 ''200 OK'' Map.empty ''token''"
  by (simp_all add: registry_challenging_def probe_with_facts unauthorized_def reply_def
      token_request_def methods_differ challenge_response_def)

lemma challenging_steps:
  "getAvailability (example_env registry_challenging) example_world ''latest'' =
     (Inr challenge_response, after_probe)"
  "reauth (example_env registry_challenging) after_probe challenge_response = (None, after_login)"
  "getAvailability (example_env registry_challenging) after_login ''latest'' =
     (Inr challenge_response, after_second_probe)"
  "reauth (example_env registry_challenging) after_second_probe challenge_response =
     (None, after_second_login)"
proof -
  show "getAvailability (example_env registry_challenging) example_world ''latest'' =
     (Inr challenge_response, after_probe)"
    using example_probe [OF example_world_token, of registry_challenging]
    by (simp add: example_world_sent challenging_answers after_probe_def)
  show "reauth (example_env registry_challenging) after_probe challenge_response =
      (None, after_login)"
    using example_reauth_challenge [of after_probe "[]" registry_challenging] example_world_token
    by (simp add: challenging_answers after_probe_def after_login_def)
  show "getAvailability (example_env registry_challenging) after_login ''latest'' =
     (Inr challenge_response, after_second_probe)"
    using example_probe [of after_login "''t0k3n''" registry_challenging]
    by (simp add: challenging_answers after_login_def after_second_probe_def)
  show "reauth (example_env registry_challenging) after_second_probe challenge_response =
     (None, after_second_login)"
    using example_reauth_challenge [of after_second_probe "''t0k3n''" registry_challenging]
    by (simp add: challenging_answers after_second_probe_def after_second_login_def)
qed

lemma challenge_response_code: "StatusCode challenge_response = StatusUnauthorized"
  by (simp add: challenge_response_def StatusUnauthorized_def)

lemma challenging_run:
  "HasImage (example_env registry_challenging) example_world ''latest'' =
     ((False, Some (errors_New ''aborted'')), after_second_login)"
  by (simp add: HasImage_def loop_step challenging_steps challenge_response_code)

lemma token_required_answers:
  "registry_token_required h (probe_with []) = Inr challenge_response"
  "registry_token_required h (probe_with ''t0k3n'') = reply 200 ''200 OK'' Map.empty []"
  "registry_token_required h token_request = reply 200 ''200 OK'' Map.empty ''token''"
  by (simp_all add: registry_token_required_def probe_with_facts unauthorized_def reply_def
      token_request_def methods_differ challenge_response_def)

lemma token_required_steps:
  "getAvailability (example_env registry_token_required) example_world ''latest'' =
     (Inr challenge_response, after_probe)"
  "reauth (example_env registry_token_required) after_probe challenge_response =
     (None, after_login)"
  "getAvailability (example_env registry_token_required) after_login ''latest'' =
     (reply 200 ''200 OK'' Map.empty [], after_second_probe)"
proof -
  show "getAvailability (example_env registry_token_required) example_world ''latest'' =
     (Inr challenge_response, after_probe)"
    using example_probe [OF example_world_token, of registry_token_required]
    by (simp add: example_world_sent token_required_answers after_probe_def)
  show "reauth (example_env registry_token_required) after_probe challenge_response =
      (None, after_login)"
    using example_reauth_challenge [of after_probe "[]" registry_token_required]
      example_world_token
    by (simp add: token_required_answers after_probe_def after_login_def)
  show "getAvailability (example_env registry_token_required) after_login ''latest'' =
     (reply 200 ''200 OK'' Map.empty [], after_second_probe)"
    using example_probe [of after_login "''t0k3n''" registry_token_required]
    by (simp add: token_required_answers after_login_def after_second_probe_def)
qed

lemma token_required_run:
  "HasImage (example_env registry_token_required) example_world ''latest'' =
     ((True, None), after_second_probe)"
  by (simp add: HasImage_def loop_step token_required_steps challenge_response_code reply_def
      StatusOK_def StatusUnauthorized_def)

lemma bare_401_response_facts:
  "StatusCode bare_401_response = StatusUnauthorized"
  "\<not> HasPrefix (Header_Get (RespHeader bare_401_response) ''Www-Authenticate'') ''Bearer ''"
  "Status bare_401_response = ''401 Unauthorized''"
  by (simp_all add: bare_401_response_def StatusUnauthorized_def Header_Get_def HasPrefix_def)

lemma bare_401_once_steps:
  "getAvailability (example_env registry_bare_401_once) example_world ''latest'' =
     (Inr bare_401_response, after_probe)"
  "getAvailability (example_env registry_bare_401_once) after_probe ''latest'' =
     (reply 200 ''200 OK'' Map.empty [], after_two_probes)"
proof -
  show "getAvailability (example_env registry_bare_401_once) example_world ''latest'' =
     (Inr bare_401_response, after_probe)"
    using example_probe [OF example_world_token, of registry_bare_401_once]
    by (simp add: example_world_sent registry_bare_401_once_def unauthorized_def reply_def
        bare_401_response_def after_probe_def)
  show "getAvailability (example_env registry_bare_401_once) after_probe ''latest'' =
     (reply 200 ''200 OK'' Map.empty [], after_two_probes)"
    using example_probe [of after_probe "[]" registry_bare_401_once] example_world_token
    by (simp add: registry_bare_401_once_def after_probe_def after_two_probes_def)
qed

lemma bare_401_steps:
  "getAvailability (example_env registry_bare_401) example_world ''latest'' =
     (Inr bare_401_response, after_probe)"
  "getAvailability (example_env registry_bare_401) after_probe ''latest'' =
     (Inr bare_401_response, after_two_probes)"
proof -
  show "getAvailability (example_env registry_bare_401) example_world ''latest'' =
     (Inr bare_401_response, after_probe)"
    using example_probe [OF example_world_token, of registry_bare_401]
    by (simp add: example_world_sent registry_bare_401_def unauthorized_def reply_def
        bare_401_response_def after_probe_def)
  show "getAvailability (example_env registry_bare_401) after_probe ''latest'' =
     (Inr bare_401_response, after_two_probes)"
    using example_probe [of after_probe "[]" registry_bare_401] example_world_token
    by (simp add: registry_bare_401_def unauthorized_def reply_def bare_401_response_def
        after_probe_def after_two_probes_def)
qed

lemma forbidden_step:
  "getAvailability (example_env registry_forbidden) example_world ''latest'' =
     (reply 403 ''403 Forbidden'' Map.empty [], after_probe)"
  using example_probe [OF example_world_token, of registry_forbidden]
  by (simp add: example_world_sent registry_forbidden_def after_probe_def)

lemma forbidden_with_token_answers:
  "registry_forbidden_with_token h (probe_with []) = Inr challenge_response"
  "registry_forbidden_with_token h (probe_with ''t0k3n'') = reply 403 ''403 Forbidden'' Map.empty []"
  "registry_forbidden_with_token h token_request = reply 200 ''200 OK'' Map.empty ''token''"
  by (simp_all add: registry_forbidden_with_token_def probe_with_facts unauthorized_def reply_def
      token_request_def methods_differ challenge_response_def)

lemma forbidden_with_token_steps:
  "getAvailability (example_env registry_forbidden_with_token) example_world ''latest'' =
     (Inr challenge_response, after_probe)"
  "reauth (example_env registry_forbidden_with_token) after_probe challenge_response =
     (None, after_login)"
  "getAvailability (example_env registry_forbidden_with_token) after_login ''latest'' =
     (reply 403 ''403 Forbidden'' Map.empty [], after_second_probe)"
proof -
  show "getAvailability (example_env registry_forbidden_with_token) example_world ''latest'' =
     (Inr challenge_response, after_probe)"
    using example_probe [OF example_world_token, of registry_forbidden_with_token]
    by (simp add: example_world_sent forbidden_with_token_answers after_probe_def)
  show "reauth (example_env registry_forbidden_with_token) after_probe challenge_response =
      (None, after_login)"
    using example_reauth_challenge [of after_probe "[]" registry_forbidden_with_token]
      example_world_token
    by (simp add: forbidden_with_token_answers after_probe_def after_login_def)
  show "getAvailability (example_env registry_forbidden_with_token) after_login ''latest'' =
     (reply 403 ''403 Forbidden'' Map.empty [], after_second_probe)"
    using example_probe [of after_login "''t0k3n''" registry_forbidden_with_token]
    by (simp add: forbidden_with_token_answers after_login_def after_second_probe_def)
qed

section \<open>The existence check\<close>

text \<open>
  C2 (as the code has it). \<open>HasImage\<close> returns \<open>(true, nil)\<close> exactly when the first probe is
  answered 200, or the first probe is answered 401, the re-authentication it asks for
  succeeds (a 401 without a Bearer challenge asks for none) and the second probe is
  answered 200: a 200 within at most one re-authentication. \<open>HasImage\<close> never returns
  \<open>(false, nil)\<close>. When the second probe, after a first 401 and a completed
  re-authentication, is answered 401 again, the result is an error, but not the status:
  it is the error of the second \<open>login\<close> when that fails and \<open>aborted\<close> otherwise.
\<close>

theorem HasImage_true_iff_200_within_one_reauth:
  "(fst (HasImage env s tag) = (True, None) \<longleftrightarrow>
      (\<exists>resp s1. getAvailability env s tag = (Inr resp, s1) \<and>
         (StatusCode resp = StatusOK \<or>
          StatusCode resp = StatusUnauthorized \<and>
          (\<exists>s2 resp2 s3. reauth env s1 resp = (None, s2) \<and>
             getAvailability env s2 tag = (Inr resp2, s3) \<and> StatusCode resp2 = StatusOK)))) \<and>
   fst (HasImage env s tag) \<noteq> (False, None) \<and>
   (getAvailability env s tag = (Inr resp, s1) \<and> StatusCode resp = StatusUnauthorized \<and>
    reauth env s1 resp = (None, s2) \<and>
    getAvailability env s2 tag = (Inr resp2, s3) \<and> StatusCode resp2 = StatusUnauthorized \<longrightarrow>
      HasImage env s tag =
        (case reauth env s3 resp2 of
           (Some err, s4) \<Rightarrow> ((False, Some err), s4)
         | (None, s4) \<Rightarrow> ((False, Some (errors_New ''aborted'')), s4)))"
proof (intro conjI impI)
  show "fst (HasImage env s tag) = (True, None) \<longleftrightarrow>
      (\<exists>resp s1. getAvailability env s tag = (Inr resp, s1) \<and>
         (StatusCode resp = StatusOK \<or>
          StatusCode resp = StatusUnauthorized \<and>
          (\<exists>s2 resp2 s3. reauth env s1 resp = (None, s2) \<and>
             getAvailability env s2 tag = (Inr resp2, s3) \<and> StatusCode resp2 = StatusOK)))"
  proof -
    obtain r s1 where p: "getAvailability env s tag = (r, s1)"
      by (cases "getAvailability env s tag")
    show ?thesis
    proof (cases r)
      case (Inl err)
      with p show ?thesis by (simp add: HasImage_def loop_step)
    next
      case (Inr resp)
      note r = this
      show ?thesis
      proof (cases "StatusCode resp = StatusUnauthorized")
        case False
        with p r show ?thesis by (simp add: HasImage_def loop_step)
      next
        case True
        obtain eo s2 where ra: "reauth env s1 resp = (eo, s2)"
          by (cases "reauth env s1 resp")
        show ?thesis
        proof (cases eo)
          case (Some err)
          with p r True ra show ?thesis
            using codes_differ by (auto simp: HasImage_def loop_step)
        next
          case None
          with p r True ra have "HasImage env s tag = HasImage_loop env (Suc 0) s2 tag"
            by (simp add: HasImage_def loop_step [of env "Suc 0"])
          with p r True ra None show ?thesis
            using codes_differ by (auto simp: last_try_true)
        qed
      qed
    qed
  qed
next
  show "fst (HasImage env s tag) \<noteq> (False, None)"
    by (simp add: HasImage_def loop_never_false_nil)
next
  assume a: "getAvailability env s tag = (Inr resp, s1) \<and> StatusCode resp = StatusUnauthorized \<and>
    reauth env s1 resp = (None, s2) \<and>
    getAvailability env s2 tag = (Inr resp2, s3) \<and> StatusCode resp2 = StatusUnauthorized"
  then have "HasImage env s tag = HasImage_loop env (Suc 0) s2 tag"
    by (simp add: HasImage_def loop_step [of env "Suc 0"])
  with a show "HasImage env s tag =
        (case reauth env s3 resp2 of
           (Some err, s4) \<Rightarrow> ((False, Some err), s4)
         | (None, s4) \<Rightarrow> ((False, Some (errors_New ''aborted'')), s4))"
    by (simp add: last_try_unauthorized)
qed

theorem HasImage_true_iff_200_within_one_reauth_witness:
  "fst (HasImage (example_env registry_token_required) example_world ''latest'') = (True, None) \<and>
   HasImage (example_env registry_challenging) example_world ''latest'' =
     ((False, Some (errors_New ''aborted'')), after_second_login)"
proof -
  have ok: "StatusCode \<lparr>StatusCode = 200, Status = ''200 OK'', RespHeader = Map.empty,
      Body = []\<rparr> = StatusOK"
    by (simp add: StatusOK_def)
  have "\<exists>resp s1.
      getAvailability (example_env registry_token_required) example_world ''latest'' =
        (Inr resp, s1) \<and>
      (StatusCode resp = StatusOK \<or>
       StatusCode resp = StatusUnauthorized \<and>
       (\<exists>s2 resp2 s3. reauth (example_env registry_token_required) s1 resp = (None, s2) \<and>
          getAvailability (example_env registry_token_required) s2 ''latest'' = (Inr resp2, s3) \<and>
          StatusCode resp2 = StatusOK))"
    using token_required_steps challenge_response_code ok by (simp add: reply_def)
  then have t: "fst (HasImage (example_env registry_token_required) example_world ''latest'') =
      (True, None)"
    using HasImage_true_iff_200_within_one_reauth
      [of "example_env registry_token_required" example_world "''latest''"]
    by blast
  have "getAvailability (example_env registry_challenging) example_world ''latest'' =
      (Inr challenge_response, after_probe) \<and>
    StatusCode challenge_response = StatusUnauthorized \<and>
    reauth (example_env registry_challenging) after_probe challenge_response = (None, after_login) \<and>
    getAvailability (example_env registry_challenging) after_login ''latest'' =
      (Inr challenge_response, after_second_probe) \<and>
    StatusCode challenge_response = StatusUnauthorized"
    by (simp add: challenging_steps challenge_response_code)
  then have "HasImage (example_env registry_challenging) example_world ''latest'' =
      (case reauth (example_env registry_challenging) after_second_probe challenge_response of
         (Some err, s4) \<Rightarrow> ((False, Some err), s4)
       | (None, s4) \<Rightarrow> ((False, Some (errors_New ''aborted'')), s4))"
    using HasImage_true_iff_200_within_one_reauth
      [of "example_env registry_challenging" example_world "''latest''" challenge_response
        after_probe after_login challenge_response after_second_probe]
    by blast
  then have a: "HasImage (example_env registry_challenging) example_world ''latest'' =
      ((False, Some (errors_New ''aborted'')), after_second_login)"
    by (simp add: challenging_steps)
  from t a show ?thesis by simp
qed

text \<open>
  The registry \<open>registry_challenging\<close> answers every probe with 401 and a Bearer challenge,
  and every token request with a token. The second 401 comes after a completed exchange
  (the handle holds the token), and the call returns \<open>aborted\<close>, not the status.
\<close>

theorem second_401_counterexample:
  "getAvailability (example_env registry_challenging) after_login ''latest'' =
     (Inr challenge_response, after_second_probe) \<and>
   token (handle after_login) = ''t0k3n'' \<and>
   Status challenge_response = ''401 Unauthorized'' \<and>
   fst (HasImage (example_env registry_challenging) example_world ''latest'') =
     (False, Some (errors_New ''aborted'')) \<and>
   fst (HasImage (example_env registry_challenging) example_world ''latest'') \<noteq>
     (False, Some (errors_New (Status challenge_response)))"
proof -
  have "token (handle after_login) = ''t0k3n''"
    by (simp add: after_login_def)
  moreover have "Status challenge_response = ''401 Unauthorized''"
    by (simp add: challenge_response_def)
  ultimately show ?thesis
    by (simp add: challenging_run challenging_steps)
qed

section \<open>Statuses other than 200\<close>

text \<open>
  C3 (as the code has it). When a probe, the first one or the second one after a 401 and
  its re-authentication, is answered with a status other than 200 and 401, \<open>HasImage\<close>
  returns at once with that status as the error. A 401 whose \<open>Www-Authenticate\<close> header
  does not begin with \<open>Bearer \<close> does not end the call: after the first probe the probe is
  repeated with no token exchange in between, and a 200 then gives \<open>(true, nil)\<close>; when
  the second probe is answered the same way the call returns the error \<open>aborted\<close>. No
  case gives \<open>(false, nil)\<close>.
\<close>

theorem HasImage_other_status:
  "(getAvailability env s tag = (Inr resp, s1) \<and>
    StatusCode resp \<noteq> StatusOK \<and> StatusCode resp \<noteq> StatusUnauthorized \<longrightarrow>
      HasImage env s tag = ((False, Some (errors_New (Status resp))), s1)) \<and>
   (getAvailability env s tag = (Inr resp, s1) \<and> StatusCode resp = StatusUnauthorized \<and>
    reauth env s1 resp = (None, s2) \<and> getAvailability env s2 tag = (Inr resp2, s3) \<and>
    StatusCode resp2 \<noteq> StatusOK \<and> StatusCode resp2 \<noteq> StatusUnauthorized \<longrightarrow>
      HasImage env s tag = ((False, Some (errors_New (Status resp2))), s3)) \<and>
   (getAvailability env s tag = (Inr resp, s1) \<and> StatusCode resp = StatusUnauthorized \<and>
    \<not> HasPrefix (Header_Get (RespHeader resp) ''Www-Authenticate'') ''Bearer '' \<and>
    getAvailability env s1 tag = (Inr resp2, s3) \<and> StatusCode resp2 = StatusOK \<longrightarrow>
      HasImage env s tag = ((True, None), s3)) \<and>
   (getAvailability env s tag = (Inr resp, s1) \<and> StatusCode resp = StatusUnauthorized \<and>
    \<not> HasPrefix (Header_Get (RespHeader resp) ''Www-Authenticate'') ''Bearer '' \<and>
    getAvailability env s1 tag = (Inr resp2, s3) \<and> StatusCode resp2 = StatusUnauthorized \<and>
    \<not> HasPrefix (Header_Get (RespHeader resp2) ''Www-Authenticate'') ''Bearer '' \<longrightarrow>
      HasImage env s tag = ((False, Some (errors_New ''aborted'')), s3)) \<and>
   fst (HasImage env s tag) \<noteq> (False, None)"
proof (intro conjI impI)
  assume "getAvailability env s tag = (Inr resp, s1) \<and>
    StatusCode resp \<noteq> StatusOK \<and> StatusCode resp \<noteq> StatusUnauthorized"
  then show "HasImage env s tag = ((False, Some (errors_New (Status resp))), s1)"
    by (simp add: HasImage_def loop_other_status)
next
  assume a: "getAvailability env s tag = (Inr resp, s1) \<and> StatusCode resp = StatusUnauthorized \<and>
    reauth env s1 resp = (None, s2) \<and> getAvailability env s2 tag = (Inr resp2, s3) \<and>
    StatusCode resp2 \<noteq> StatusOK \<and> StatusCode resp2 \<noteq> StatusUnauthorized"
  then have "HasImage env s tag = HasImage_loop env (Suc 0) s2 tag"
    by (simp add: HasImage_def loop_unauthorized)
  with a show "HasImage env s tag = ((False, Some (errors_New (Status resp2))), s3)"
    by (simp add: loop_other_status)
next
  assume a: "getAvailability env s tag = (Inr resp, s1) \<and> StatusCode resp = StatusUnauthorized \<and>
    \<not> HasPrefix (Header_Get (RespHeader resp) ''Www-Authenticate'') ''Bearer '' \<and>
    getAvailability env s1 tag = (Inr resp2, s3) \<and> StatusCode resp2 = StatusOK"
  then have "HasImage env s tag = HasImage_loop env (Suc 0) s1 tag"
    by (simp add: HasImage_def loop_unauthorized reauth_without_Bearer)
  with a show "HasImage env s tag = ((True, None), s3)"
    by (simp add: loop_ok)
next
  assume a: "getAvailability env s tag = (Inr resp, s1) \<and> StatusCode resp = StatusUnauthorized \<and>
    \<not> HasPrefix (Header_Get (RespHeader resp) ''Www-Authenticate'') ''Bearer '' \<and>
    getAvailability env s1 tag = (Inr resp2, s3) \<and> StatusCode resp2 = StatusUnauthorized \<and>
    \<not> HasPrefix (Header_Get (RespHeader resp2) ''Www-Authenticate'') ''Bearer ''"
  then have "HasImage env s tag = HasImage_loop env (Suc 0) s1 tag"
    by (simp add: HasImage_def loop_unauthorized reauth_without_Bearer)
  with a show "HasImage env s tag = ((False, Some (errors_New ''aborted'')), s3)"
    by (simp add: last_try_unauthorized reauth_without_Bearer)
next
  show "fst (HasImage env s tag) \<noteq> (False, None)"
    by (simp add: HasImage_def loop_never_false_nil)
qed

theorem HasImage_other_status_witness:
  "HasImage (example_env registry_forbidden) example_world ''latest'' =
     ((False, Some (errors_New ''403 Forbidden'')), after_probe) \<and>
   HasImage (example_env registry_forbidden_with_token) example_world ''latest'' =
     ((False, Some (errors_New ''403 Forbidden'')), after_second_probe) \<and>
   HasImage (example_env registry_bare_401_once) example_world ''latest'' =
     ((True, None), after_two_probes) \<and>
   HasImage (example_env registry_bare_401) example_world ''latest'' =
     ((False, Some (errors_New ''aborted'')), after_two_probes)"
proof -
  let ?r403 = "\<lparr>StatusCode = 403, Status = ''403 Forbidden'', RespHeader = Map.empty, Body = []\<rparr>"
  let ?r200 = "\<lparr>StatusCode = 200, Status = ''200 OK'', RespHeader = Map.empty, Body = []\<rparr>"
  have c403: "StatusCode ?r403 \<noteq> StatusOK \<and> StatusCode ?r403 \<noteq> StatusUnauthorized"
    by (simp add: StatusOK_def StatusUnauthorized_def)
  have c200: "StatusCode ?r200 = StatusOK"
    by (simp add: StatusOK_def)
  have w1: "HasImage (example_env registry_forbidden) example_world ''latest'' =
      ((False, Some (errors_New ''403 Forbidden'')), after_probe)"
    using HasImage_other_status [of "example_env registry_forbidden" example_world "''latest''"
        ?r403 after_probe] forbidden_step c403
    by (simp add: reply_def)
  have w2: "HasImage (example_env registry_forbidden_with_token) example_world ''latest'' =
      ((False, Some (errors_New ''403 Forbidden'')), after_second_probe)"
    using HasImage_other_status [of "example_env registry_forbidden_with_token" example_world
        "''latest''" challenge_response after_probe after_login ?r403 after_second_probe]
      forbidden_with_token_steps c403 challenge_response_code
    by (simp add: reply_def)
  have w3: "HasImage (example_env registry_bare_401_once) example_world ''latest'' =
      ((True, None), after_two_probes)"
    using HasImage_other_status [of "example_env registry_bare_401_once" example_world
        "''latest''" bare_401_response after_probe after_login ?r200 after_two_probes]
      bare_401_once_steps c200 bare_401_response_facts
    by (simp add: reply_def)
  have w4: "HasImage (example_env registry_bare_401) example_world ''latest'' =
      ((False, Some (errors_New ''aborted'')), after_two_probes)"
    using HasImage_other_status [of "example_env registry_bare_401" example_world
        "''latest''" bare_401_response after_probe after_login bare_401_response after_two_probes]
      bare_401_steps bare_401_response_facts
    by simp
  from w1 w2 w3 w4 show ?thesis by simp
qed

text \<open>
  The registry \<open>registry_bare_401_once\<close> answers the first probe with 401 and no
  \<open>Www-Authenticate\<close> header, and the second with 200. The call does not end with the status
  401 as its error: it returns \<open>(true, nil)\<close>.
\<close>

theorem bare_401_counterexample:
  "getAvailability (example_env registry_bare_401_once) example_world ''latest'' =
     (Inr bare_401_response, after_probe) \<and>
   StatusCode bare_401_response = 401 \<and>
   \<not> HasPrefix (Header_Get (RespHeader bare_401_response) ''Www-Authenticate'') ''Bearer '' \<and>
   HasImage (example_env registry_bare_401_once) example_world ''latest'' =
     ((True, None), after_two_probes) \<and>
   fst (HasImage (example_env registry_bare_401_once) example_world ''latest'') \<noteq>
     (False, Some (errors_New (Status bare_401_response)))"
proof -
  have run: "HasImage (example_env registry_bare_401_once) example_world ''latest'' =
      ((True, None), after_two_probes)"
    by (simp add: HasImage_def loop_step bare_401_once_steps bare_401_response_facts
        reauth_without_Bearer reply_def StatusOK_def StatusUnauthorized_def)
  have "StatusCode bare_401_response = 401"
    by (simp add: bare_401_response_def)
  then show ?thesis
    by (simp add: run bare_401_once_steps bare_401_response_facts)
qed

section \<open>Authentication attempts\<close>

text \<open>
  C4 (as the code has it). The requests of one \<open>HasImage\<close> call are HEAD probes and the GET
  requests of \<open>login\<close> (lemmas \<open>getAvailability_adds\<close> and \<open>login_adds\<close>) and nothing
  else. There are at most two probes, and at most one token request after each probe:
  so at most two authentication attempts, not one. The second is made when the second
  probe is answered 401 with a Bearer challenge again.
\<close>

theorem HasImage_token_requests:
  "\<exists>new. sent (snd (HasImage env s tag)) = sent s @ new \<and>
     count_method MethodHead new \<le> 2 \<and>
     count_method MethodGet new \<le> count_method MethodHead new \<and>
     count_method MethodGet new \<le> 2 \<and>
     length new = count_method MethodHead new + count_method MethodGet new"
proof -
  obtain new where n: "sent (snd (HasImage_loop env (Suc (Suc 0)) s tag)) = sent s @ new"
      "count_method MethodHead new \<le> Suc (Suc 0)"
      "count_method MethodGet new \<le> count_method MethodHead new"
      "length new = count_method MethodHead new + count_method MethodGet new"
    using loop_adds [of env "Suc (Suc 0)" s tag] by blast
  then have "count_method MethodGet new \<le> 2"
    by simp
  with n show ?thesis
    by (auto simp: HasImage_def)
qed

theorem HasImage_token_requests_witness:
  "(\<exists>new. sent (snd (HasImage (example_env registry_token_required) example_world ''latest'')) =
       sent example_world @ new \<and>
     count_method MethodHead new \<le> 2 \<and>
     count_method MethodGet new \<le> count_method MethodHead new \<and>
     count_method MethodGet new \<le> 2 \<and>
     length new = count_method MethodHead new + count_method MethodGet new) \<and>
   sent (snd (HasImage (example_env registry_token_required) example_world ''latest'')) =
     [probe_with [], token_request, probe_with ''t0k3n''] \<and>
   count_method MethodGet [probe_with [], token_request, probe_with ''t0k3n''] = 1"
proof -
  have "count_method MethodGet [probe_with [], token_request, probe_with ''t0k3n''] = 1"
    using methods_differ
    by (simp add: count_method_def probe_with_facts token_request_def)
  then show ?thesis
    using HasImage_token_requests [of "example_env registry_token_required" example_world
        "''latest''"]
    by (simp add: token_required_run after_second_probe_def)
qed

text \<open>
  On \<open>registry_challenging\<close> one call makes two token requests: the four requests are
  probe, token request, probe, token request.
\<close>

theorem two_token_requests_counterexample:
  "sent example_world = [] \<and>
   sent (snd (HasImage (example_env registry_challenging) example_world ''latest'')) =
     [probe_with [], token_request, probe_with ''t0k3n'', token_request] \<and>
   token_request =
     loginRequest (example_env registry_challenging) (handle example_world)
       ''https://auth.example.com/token'' ''registry.example.com'' ''repository:team/app:pull'' \<and>
   count_method MethodGet
     (sent (snd (HasImage (example_env registry_challenging) example_world ''latest''))) = 2"
proof -
  have "count_method MethodGet [probe_with [], token_request, probe_with ''t0k3n'', token_request] = 2"
    using methods_differ
    by (simp add: count_method_def probe_with_facts token_request_def)
  moreover have "token_request =
     loginRequest (example_env registry_challenging) (handle example_world)
       ''https://auth.example.com/token'' ''registry.example.com'' ''repository:team/app:pull''"
    by (simp add: token_request_def loginRequest_def example_env_def example_world_def
        example_handle)
  ultimately show ?thesis
    by (simp add: challenging_run after_second_login_def example_world_sent)
qed

end
